theory Spec2Isabelle
  imports Complex_Main
begin

section \<open>Data model\<close>

text \<open>
  The application is one React component (\<^verbatim>\<open>App\<close>); the functions below are the
  functions declared inside it. Source lines refer to the latest version of the component
  (\<^verbatim>\<open>src/unnamed/part_002\<close>, lines 128-823).

  \<^verbatim>\<open>interface Movie { imdbID: string; Title: string; Year: string; Poster: string; }\<close>
\<close>

record Movie =
  imdbID :: string
  Title :: string
  Year :: string
  Poster :: string

text \<open>\<^verbatim>\<open>interface SearchHistoryEntry { query: string; movies: Movie[]; }\<close>\<close>

record SearchHistoryEntry =
  entry_query :: string
  entry_movies :: "Movie list"

text \<open>
  A rejected \<^verbatim>\<open>fetch\<close> promise or a body that \<^verbatim>\<open>res.json()\<close> cannot parse is an
  exception at the \<^verbatim>\<open>await\<close>; both are values of \<open>error\<close>. A response that was
  received and parsed carries its JSON payload.
\<close>

datatype error = NetworkError | ParseError

datatype 'a response = Failed error | Json 'a

text \<open>
  The movie search provider answers \<^verbatim>\<open>{Search: [...]}\<close>, or an object without the
  \<^verbatim>\<open>Search\<close> field. \<open>None\<close> is the field being absent (any falsy value takes the
  same branch of \<^verbatim>\<open>if (!data.Search) break\<close>); an empty array is truthy in JavaScript
  and is \<open>Some []\<close>.
\<close>

type_synonym omdb_page = "Movie list option"

text \<open>
  The provider, as seen by one query: the response to the request for page \<open>n\<close> of the
  search term \<open>q\<close> (the URL \<^verbatim>\<open>...?apikey=thewdb&s=${q}&page=${n}\<close>).
\<close>

type_synonym omdb = "string \<Rightarrow> nat \<Rightarrow> omdb_page response"

section \<open>Genre mapper\<close>

text \<open>
  \<^verbatim>\<open>
  function getGenreForWeather(code: number, temp: number) {
    if (code >= 0 && code <= 3) return "adventure";
    if (code >= 45 && code <= 48) return "mystery";
    if (code >= 51 && code <= 67) return "romance";
    if (code >= 71 && code <= 77) return "fantasy";
    if (temp >= 30) return "action";
    if (temp <= 5) return "family";
    return "drama";
  }
  \<close>
  The weather code is an integer; the temperature is a number compared with the constants
  30 and 5 only, so it is a real here (a comparison of a finite double with a constant is
  exact).
\<close>

definition getGenreForWeather :: "int \<Rightarrow> real \<Rightarrow> string" where
  "getGenreForWeather code temp =
     (if code \<ge> 0 \<and> code \<le> 3 then ''adventure''
      else if code \<ge> 45 \<and> code \<le> 48 then ''mystery''
      else if code \<ge> 51 \<and> code \<le> 67 then ''romance''
      else if code \<ge> 71 \<and> code \<le> 77 then ''fantasy''
      else if temp \<ge> 30 then ''action''
      else if temp \<le> 5 then ''family''
      else ''drama'')"

text \<open>
  \<^verbatim>\<open>const GENRES = ['adventure', 'mystery', 'romance', 'fantasy', 'action', 'family', 'drama']\<close>
\<close>

definition GENRES :: "string list" where
  "GENRES = [''adventure'', ''mystery'', ''romance'', ''fantasy'', ''action'', ''family'', ''drama'']"

text \<open>The code ranges of the four weather rules, as the specification lists them.\<close>

definition code_ranges :: "(int \<times> int) list" where
  "code_ranges = [(0, 3), (45, 48), (51, 67), (71, 77)]"

definition in_code_range :: "int \<Rightarrow> bool" where
  "in_code_range code = list_ex (\<lambda>(lo, hi). lo \<le> code \<and> code \<le> hi) code_ranges"

section \<open>Paginated fetcher\<close>

text \<open>
  \<^verbatim>\<open>
  async function fetchAllMoviesByGenre(genre: string) {
    let allMovies: Movie[] = [];
    let page = 1;
    while (true) {
      const res = await fetch(`https://www.omdbapi.com/?apikey=thewdb&s=${genre}&page=${page}`);
      const data = await res.json();
      if (!data.Search) break;
      allMovies = [...allMovies, ...data.Search];
      page++;
      if (page > 10) break;
    }
    return allMovies;
  }
  \<close>
  The loop is \<open>fetch_loop\<close>: its state is the page number, the accumulated movies and the
  log of the page numbers requested so far. It returns the log together with either the
  exception that left the loop or the value of \<^verbatim>\<open>allMovies\<close> at the \<^verbatim>\<open>break\<close>.
  A \<^verbatim>\<open>Search\<close> field that is present is an array of movies, as the declared type
  \<^verbatim>\<open>Movie[]\<close> of \<^verbatim>\<open>allMovies\<close> has it.
  \<^verbatim>\<open>handleSearch\<close> (lines 406-421) contains the same loop, statement for statement.
\<close>

record fetch_result =
  requests :: "nat list"
  outcome :: "error + Movie list"

function fetch_loop :: "(nat \<Rightarrow> omdb_page response) \<Rightarrow> nat \<Rightarrow> Movie list \<Rightarrow> nat list \<Rightarrow> fetch_result" where
  "fetch_loop srv page allMovies reqs =
     (case srv page of
        Failed e \<Rightarrow> \<lparr>requests = reqs @ [page], outcome = Inl e\<rparr>
      | Json None \<Rightarrow> \<lparr>requests = reqs @ [page], outcome = Inr allMovies\<rparr>
      | Json (Some found) \<Rightarrow>
          (if page + 1 > 10
           then \<lparr>requests = reqs @ [page], outcome = Inr (allMovies @ found)\<rparr>
           else fetch_loop srv (page + 1) (allMovies @ found) (reqs @ [page])))"
  by pat_completeness auto
termination
  by (relation "measure (\<lambda>(srv, page, allMovies, reqs). 11 - page)") auto

definition fetchAllMoviesByGenre :: "omdb \<Rightarrow> string \<Rightarrow> fetch_result" where
  "fetchAllMoviesByGenre srv genre = fetch_loop (srv genre) 1 [] []"

text \<open>
  Two readings of a response: whether it carries a \<^verbatim>\<open>Search\<close> field, and the movies of
  that field.
\<close>

definition is_results :: "omdb_page response \<Rightarrow> bool" where
  "is_results r = (case r of Json (Some found) \<Rightarrow> True | _ \<Rightarrow> False)"

definition the_results :: "omdb_page response \<Rightarrow> Movie list" where
  "the_results r = (case r of Json (Some found) \<Rightarrow> found | _ \<Rightarrow> [])"

text \<open>
  The concatenation, in ascending page order, of the \<^verbatim>\<open>Search\<close> fields of pages
  \<open>1\<close> to \<open>n - 1\<close>.
\<close>

definition pages_before :: "(nat \<Rightarrow> omdb_page response) \<Rightarrow> nat \<Rightarrow> Movie list" where
  "pages_before srv n = concat (map (\<lambda>p. the_results (srv p)) [1..<n])"

text \<open>
  Two movies, and a provider with one movie on each of the pages 1 to 11 and no twelfth
  page.
\<close>

definition a_movie :: Movie where
  "a_movie = \<lparr>imdbID = ''tt0314331'', Title = ''Love Actually'', Year = ''2003'', Poster = ''N/A''\<rparr>"

definition another_movie :: Movie where
  "another_movie = \<lparr>imdbID = ''tt0372784'', Title = ''Batman Begins'', Year = ''2005'', Poster = ''N/A''\<rparr>"

definition eleven_pages :: omdb where
  "eleven_pages q p = (if p \<le> 11 then Json (Some [a_movie]) else Json None)"

text \<open>A provider with two pages of results, and one whose second request fails.\<close>

definition two_pages :: omdb where
  "two_pages q p = (if p \<le> 2 then Json (Some [a_movie]) else Json None)"

definition fails_on_second :: omdb where
  "fails_on_second q p = (if p = 1 then Json (Some [a_movie]) else Failed NetworkError)"

definition no_results :: omdb where
  "no_results q p = Json None"

definition offline :: omdb where
  "offline q p = Failed NetworkError"

section \<open>Trailer resolver\<close>

text \<open>
  The video-metadata provider: the title search returns \<^verbatim>\<open>{results: [{id, ...}, ...]}\<close>
  and the video listing of a title returns \<^verbatim>\<open>{results: [{type, site, key}, ...]}\<close>. In
  both, \<open>None\<close> is a body without a (truthy) \<^verbatim>\<open>results\<close> field. The field
  \<^verbatim>\<open>id\<close> of a match is \<open>tmdb_id\<close>.
\<close>

record tmdb_match =
  tmdb_id :: nat

record video =
  type :: string
  site :: string
  key :: string

record tmdb =
  search_movie :: "string \<Rightarrow> string \<Rightarrow> tmdb_match list option response"
  movie_videos :: "nat \<Rightarrow> video list option response"

text \<open>
  Step 3 of \<^verbatim>\<open>fetchTrailerFromTMDB\<close> (lines 301-309):
  \<^verbatim>\<open>
  const trailer = videosData.results.find(v => v.type === 'Trailer' && v.site === 'YouTube')
    || videosData.results.find(v => v.type === 'Teaser' && v.site === 'YouTube')
    || videosData.results.find(v => v.site === 'YouTube');
  return trailer?.key || null;
  \<close>
  \<^verbatim>\<open>Array.prototype.find\<close> returns the first element that satisfies the predicate, or
  \<^verbatim>\<open>undefined\<close>; an object is truthy, so \<^verbatim>\<open>||\<close> moves on exactly when nothing was
  found. An empty \<^verbatim>\<open>key\<close> is falsy, so \<^verbatim>\<open>|| null\<close> turns it into \<^verbatim>\<open>null\<close>.
\<close>

definition select_trailer :: "video list \<Rightarrow> video option" where
  "select_trailer results =
     (case find (\<lambda>v. type v = ''Trailer'' \<and> site v = ''YouTube'') results of
        Some v \<Rightarrow> Some v
      | None \<Rightarrow>
          (case find (\<lambda>v. type v = ''Teaser'' \<and> site v = ''YouTube'') results of
             Some v \<Rightarrow> Some v
           | None \<Rightarrow> find (\<lambda>v. site v = ''YouTube'') results))"

definition key_or_null :: "video option \<Rightarrow> string option" where
  "key_or_null trailer =
     (case trailer of None \<Rightarrow> None
      | Some v \<Rightarrow> if key v = [] then None else Some (key v))"

text \<open>
  The body of the \<^verbatim>\<open>try\<close> block (lines 280-309). Each \<^verbatim>\<open>await\<close> of a failed request
  throws; the two \<^verbatim>\<open>if (!data.results || data.results.length === 0) return null\<close> guards
  return early.
\<close>

definition trailer_lookup :: "tmdb \<Rightarrow> string \<Rightarrow> string \<Rightarrow> error + string option" where
  "trailer_lookup srv title year =
     (case search_movie srv title year of
        Failed e \<Rightarrow> Inl e
      | Json None \<Rightarrow> Inr None
      | Json (Some []) \<Rightarrow> Inr None
      | Json (Some (first # others)) \<Rightarrow>
          (case movie_videos srv (tmdb_id first) of
             Failed e \<Rightarrow> Inl e
           | Json None \<Rightarrow> Inr None
           | Json (Some []) \<Rightarrow> Inr None
           | Json (Some results) \<Rightarrow> Inr (key_or_null (select_trailer results))))"

text \<open>
  \<^verbatim>\<open>
  async function fetchTrailerFromTMDB(title, year): Promise<string | null> {
    if (!TMDB_API_KEY) { console.warn(...); return null; }
    try { ... } catch (error) { console.error(...); return null; }
  }
  \<close>
  \<^verbatim>\<open>TMDB_API_KEY\<close> is read from the build environment and is a parameter here: \<open>None\<close>
  when the variable is not set. The result is what the returned promise settles to:
  \<open>Inl\<close> would be a rejection.
\<close>

definition fetchTrailerFromTMDB ::
    "string option \<Rightarrow> tmdb \<Rightarrow> string \<Rightarrow> string \<Rightarrow> error + string option" where
  "fetchTrailerFromTMDB TMDB_API_KEY srv title year =
     (if TMDB_API_KEY = None \<or> TMDB_API_KEY = Some [] then Inr None
      else (case trailer_lookup srv title year of
              Inl e \<Rightarrow> Inr None
            | Inr found \<Rightarrow> Inr found))"

text \<open>
  The selection as the specification words it: the key of the first entry whose type is
  "Trailer" on the expected platform, else of the first whose type is "Teaser" on that
  platform, else of the first entry on that platform, else none.
\<close>

fun first_key :: "(video \<Rightarrow> bool) \<Rightarrow> video list \<Rightarrow> string option" where
  "first_key P [] = None"
| "first_key P (v # vs) = (if P v then Some (key v) else first_key P vs)"

definition specified_key :: "video list \<Rightarrow> string option" where
  "specified_key results =
     (case first_key (\<lambda>v. type v = ''Trailer'' \<and> site v = ''YouTube'') results of
        Some k \<Rightarrow> Some k
      | None \<Rightarrow>
          (case first_key (\<lambda>v. type v = ''Teaser'' \<and> site v = ''YouTube'') results of
             Some k \<Rightarrow> Some k
           | None \<Rightarrow> first_key (\<lambda>v. site v = ''YouTube'') results))"

text \<open>Video listings and providers used as concrete inputs below.\<close>

definition keyless_trailer :: video where
  "keyless_trailer = \<lparr>type = ''Trailer'', site = ''YouTube'', key = []\<rparr>"

definition clip :: video where
  "clip = \<lparr>type = ''Clip'', site = ''YouTube'', key = ''c1''\<rparr>"

definition teaser :: video where
  "teaser = \<lparr>type = ''Teaser'', site = ''YouTube'', key = ''t1''\<rparr>"

definition vimeo_trailer :: video where
  "vimeo_trailer = \<lparr>type = ''Trailer'', site = ''Vimeo'', key = ''v1''\<rparr>"

definition official_trailer :: video where
  "official_trailer = \<lparr>type = ''Trailer'', site = ''YouTube'', key = ''y1''\<rparr>"

definition tmdb_with :: "video list \<Rightarrow> tmdb" where
  "tmdb_with results =
     \<lparr>search_movie = (\<lambda>title year. Json (Some [\<lparr>tmdb_id = 508\<rparr>])),
      movie_videos = (\<lambda>n. if n = 508 then Json (Some results) else Json None)\<rparr>"

definition tmdb_search_down :: tmdb where
  "tmdb_search_down =
     \<lparr>search_movie = (\<lambda>title year. Failed NetworkError),
      movie_videos = (\<lambda>n. Json (Some [official_trailer]))\<rparr>"

definition tmdb_videos_garbled :: tmdb where
  "tmdb_videos_garbled =
     \<lparr>search_movie = (\<lambda>title year. Json (Some [\<lparr>tmdb_id = 508\<rparr>])),
      movie_videos = (\<lambda>n. Failed ParseError)\<rparr>"

definition tmdb_no_results_field :: tmdb where
  "tmdb_no_results_field =
     \<lparr>search_movie = (\<lambda>title year. Json None),
      movie_videos = (\<lambda>n. Json (Some [official_trailer]))\<rparr>"

definition tmdb_no_match :: tmdb where
  "tmdb_no_match =
     \<lparr>search_movie = (\<lambda>title year. Json (Some [])),
      movie_videos = (\<lambda>n. Json (Some [official_trailer]))\<rparr>"

definition tmdb_videos_no_field :: tmdb where
  "tmdb_videos_no_field =
     \<lparr>search_movie = (\<lambda>title year. Json (Some [\<lparr>tmdb_id = 508\<rparr>])),
      movie_videos = (\<lambda>n. Json None)\<rparr>"

section \<open>Trailer cache\<close>

text \<open>
  \<^verbatim>\<open>interface TrailerState { youtubeKey: string | null; loading: boolean; error: boolean; }\<close>
\<close>

record TrailerState =
  youtubeKey :: "string option"
  loading :: bool
  error :: bool

text \<open>
  The part of the component state that the trailer effect (lines 369-389) reads and writes:
  \<^verbatim>\<open>hoveredMovie\<close>, \<^verbatim>\<open>trailer\<close> and the \<^verbatim>\<open>trailerCache\<close> ref, a
  \<^verbatim>\<open>Map<string, string | null>\<close> (\<open>None\<close>: no entry, \<^verbatim>\<open>get\<close> returns
  \<^verbatim>\<open>undefined\<close>; \<open>Some None\<close>: the entry \<^verbatim>\<open>null\<close>). Two fields record what the
  JavaScript runtime holds: \<open>in_flight\<close>, the promises of \<^verbatim>\<open>fetchTrailerFromTMDB\<close>
  that have not settled, each with the \<^verbatim>\<open>imdbID\<close> its \<^verbatim>\<open>then\<close> callback closes over,
  and \<open>lookups\<close>, the log of the ids \<^verbatim>\<open>fetchTrailerFromTMDB\<close> was called for.
\<close>

record preview_state =
  hoveredMovie :: "Movie option"
  trailer :: TrailerState
  trailerCache :: "string \<rightharpoonup> string option"
  in_flight :: "string list"
  lookups :: "string list"

definition initial_preview :: preview_state where
  "initial_preview =
     \<lparr>hoveredMovie = None,
      trailer = \<lparr>youtubeKey = None, loading = False, error = False\<rparr>,
      trailerCache = Map.empty, in_flight = [], lookups = []\<rparr>"

text \<open>
  \<^verbatim>\<open>setHoveredMovie(hovered)\<close> followed by the effect that runs when
  \<^verbatim>\<open>hoveredMovie\<close> has changed, up to the call of \<^verbatim>\<open>fetchTrailerFromTMDB\<close>:
  \<^verbatim>\<open>
  if (!hoveredMovie) { setTrailer({youtubeKey: null, loading: false, error: false}); return; }
  const cachedKey = trailerCache.current.get(hoveredMovie.imdbID);
  if (cachedKey !== undefined) {
    setTrailer({youtubeKey: cachedKey, loading: false, error: cachedKey === null}); return;
  }
  setTrailer({youtubeKey: null, loading: true, error: false});
  fetchTrailerFromTMDB(hoveredMovie.Title, hoveredMovie.Year).then(...)
  \<close>
\<close>

definition hover_effect :: "Movie option \<Rightarrow> preview_state \<Rightarrow> preview_state" where
  "hover_effect hovered s =
     (case hovered of
        None \<Rightarrow>
          s\<lparr>hoveredMovie := None,
            trailer := \<lparr>youtubeKey = None, loading = False, error = False\<rparr>\<rparr>
      | Some movie \<Rightarrow>
          (case trailerCache s (imdbID movie) of
             Some cachedKey \<Rightarrow>
               s\<lparr>hoveredMovie := Some movie,
                 trailer := \<lparr>youtubeKey = cachedKey, loading = False,
                             error = (cachedKey = None)\<rparr>\<rparr>
           | None \<Rightarrow>
               s\<lparr>hoveredMovie := Some movie,
                 trailer := \<lparr>youtubeKey = None, loading = True, error = False\<rparr>,
                 in_flight := in_flight s @ [imdbID movie],
                 lookups := lookups s @ [imdbID movie]\<rparr>))"

text \<open>
  The \<^verbatim>\<open>then\<close> callback of the \<open>i\<close>-th promise in flight, run when that lookup has
  settled with the value \<open>found\<close> (the promise of \<^verbatim>\<open>fetchTrailerFromTMDB\<close> is
  never rejected, see below, so the callback runs for every lookup that settles):
  \<^verbatim>\<open>
  (key) => { trailerCache.current.set(hoveredMovie.imdbID, key);
             setTrailer({youtubeKey: key, loading: false, error: key === null}); }
  \<close>
  where \<^verbatim>\<open>hoveredMovie\<close> is the movie of the effect run that started the lookup.
\<close>

definition lookup_settled :: "nat \<Rightarrow> string option \<Rightarrow> preview_state \<Rightarrow> preview_state" where
  "lookup_settled i found s =
     (if i < length (in_flight s)
      then s\<lparr>trailerCache := (trailerCache s)(in_flight s ! i \<mapsto> found),
             trailer := \<lparr>youtubeKey = found, loading = False, error = (found = None)\<rparr>,
             in_flight := take i (in_flight s) @ drop (Suc i) (in_flight s)\<rparr>
      else s)"

text \<open>
  A session is a sequence of events on the single event-loop thread: the effect running
  for a new value of \<^verbatim>\<open>hoveredMovie\<close>, and a lookup in flight settling.
\<close>

datatype preview_event = Hovered "Movie option" | Settled nat "string option"

fun preview_step :: "preview_state \<Rightarrow> preview_event \<Rightarrow> preview_state" where
  "preview_step s (Hovered hovered) = hover_effect hovered s"
| "preview_step s (Settled i found) = lookup_settled i found s"

definition session :: "preview_event list \<Rightarrow> preview_state \<Rightarrow> preview_state" where
  "session events s = foldl preview_step s events"

text \<open>
  A session in which the card of one movie is hovered, the preview is closed before the
  lookup has settled, the same card is hovered again, and then both lookups settle.
\<close>

definition hover_twice_early :: "preview_event list" where
  "hover_twice_early =
     [Hovered (Some a_movie), Hovered None, Hovered (Some a_movie),
      Settled 0 None, Settled 0 (Some ''y1'')]"

text \<open>
  No hover over the movie with id \<open>mid\<close> happens while a lookup for \<open>mid\<close> is in
  flight.
\<close>

fun unhurried :: "string \<Rightarrow> preview_state \<Rightarrow> preview_event list \<Rightarrow> bool" where
  "unhurried mid s [] = True"
| "unhurried mid s (Hovered (Some movie) # events) =
     ((imdbID movie = mid \<longrightarrow> mid \<notin> set (in_flight s)) \<and>
      unhurried mid (hover_effect (Some movie) s) events)"
| "unhurried mid s (event # events) = unhurried mid (preview_step s event) events"

text \<open>
  The lookup for \<open>mid\<close> has been started at most once, and not at all while there is
  neither an entry nor a lookup in flight for it.
\<close>

definition once :: "string \<Rightarrow> preview_state \<Rightarrow> bool" where
  "once mid s =
     (count_list (lookups s) mid \<le> 1 \<and>
      (trailerCache s mid = None \<and> mid \<notin> set (in_flight s) \<longrightarrow> count_list (lookups s) mid = 0))"

text \<open>
  A session in which the lookup settles before the card is hovered again, and hovers that
  may follow it.
\<close>

definition hover_once :: "preview_event list" where
  "hover_once = [Hovered (Some a_movie), Settled 0 (Some ''y1'')]"

definition later_hovers :: "preview_event list" where
  "later_hovers =
     [Hovered None, Hovered (Some another_movie), Hovered (Some a_movie), Hovered None]"

section \<open>Search controller\<close>

text \<open>
  The state of the component that the search handlers and the result area read and write
  (the \<^verbatim>\<open>useState\<close> declarations of lines 163-171).
\<close>

record app_state =
  query :: string
  searchedQuery :: string
  movies :: "Movie list"
  suggested :: "Movie list"
  hasSearched :: bool
  isSearching :: bool
  searchHistory :: "SearchHistoryEntry list"
  selectedGenre :: string
  weatherReason :: string

definition initial_state :: app_state where
  "initial_state =
     \<lparr>query = [], searchedQuery = [], movies = [], suggested = [], hasSearched = False,
      isSearching = False, searchHistory = [], selectedGenre = [], weatherReason = []\<rparr>"

text \<open>
  \<^verbatim>\<open>String.prototype.trim\<close> removes the white space and line terminators of
  ECMAScript from both ends. A \<open>char\<close> of a string is a code unit below 0x100; among
  these the ones that \<^verbatim>\<open>trim\<close> removes are tab, line feed, vertical tab, form feed,
  carriage return, space and the no-break space U+00A0 (U+0085 is not white space in
  ECMAScript). The others (U+1680, U+2000 to U+200A, U+2028, U+2029, U+202F, U+205F,
  U+3000 and U+FEFF) are code units that a \<open>char\<close> cannot hold.
\<close>

definition is_space :: "char \<Rightarrow> bool" where
  "is_space c =
     (c \<in> set [CHR 0x09, CHR 0x0A, CHR 0x0B, CHR 0x0C, CHR 0x0D, CHR '' '', CHR 0xA0])"

definition trim :: "string \<Rightarrow> string" where
  "trim s = rev (dropWhile is_space (rev (dropWhile is_space s)))"

text \<open>
  \<^verbatim>\<open>handleSearch\<close>, lines 392-425. The part before the first \<^verbatim>\<open>await\<close>:
  \<^verbatim>\<open>
  const trimmedQuery = query.trim();
  if (!trimmedQuery) return;
  if (hasSearched && searchedQuery) {
    setSearchHistory(prev => [...prev, { query: searchedQuery, movies }]);
  }
  setMovies([]); setSearchedQuery(trimmedQuery); setHasSearched(true);
  setIsSearching(true); setSelectedGenre('');
  \<close>
  \<open>None\<close> is the early return, which sets no state.
\<close>

definition handleSearch_begin :: "app_state \<Rightarrow> app_state option" where
  "handleSearch_begin st =
     (let trimmedQuery = trim (query st) in
      if trimmedQuery = [] then None
      else Some (st\<lparr>searchHistory :=
                       (if hasSearched st \<and> searchedQuery st \<noteq> []
                        then searchHistory st @
                               [\<lparr>entry_query = searchedQuery st, entry_movies = movies st\<rparr>]
                        else searchHistory st),
                    movies := [],
                    searchedQuery := trimmedQuery,
                    hasSearched := True,
                    isSearching := True,
                    selectedGenre := []\<rparr>))"

text \<open>
  The part after the loop: \<^verbatim>\<open>setMovies(allMovies); setIsSearching(false);\<close>
\<close>

definition handleSearch_end :: "Movie list \<Rightarrow> app_state \<Rightarrow> app_state" where
  "handleSearch_end allMovies st = st\<lparr>movies := allMovies, isSearching := False\<rparr>"

text \<open>
  The handler run to its end with no other event in between. The first component of the
  result is the exception that the promise of the handler is rejected with, if any: the
  handler has no \<^verbatim>\<open>try\<close>, so an exception inside the loop leaves it at once and the two
  statements after the loop do not run.
\<close>

definition handleSearch :: "omdb \<Rightarrow> app_state \<Rightarrow> error option \<times> app_state" where
  "handleSearch srv st =
     (case handleSearch_begin st of
        None \<Rightarrow> (None, st)
      | Some searching \<Rightarrow>
          (case outcome (fetch_loop (srv (trim (query st))) 1 [] []) of
             Inl e \<Rightarrow> (Some e, searching)
           | Inr allMovies \<Rightarrow> (None, handleSearch_end allMovies searching)))"

text \<open>
  The page requests that \<^verbatim>\<open>handleSearch\<close> issues: none on the early return, else
  those of its loop.
\<close>

definition handleSearch_requests :: "omdb \<Rightarrow> app_state \<Rightarrow> nat list" where
  "handleSearch_requests srv st =
     (case handleSearch_begin st of
        None \<Rightarrow> []
      | Some searching \<Rightarrow> requests (fetch_loop (srv (trim (query st))) 1 [] []))"

text \<open>
  \<^verbatim>\<open>handleGenreSelect\<close>, lines 428-449:
  \<^verbatim>\<open>
  setSelectedGenre(genre);
  if (!genre) { setMovies([]); setHasSearched(false); setQuery(''); setSearchedQuery(''); return; }
  setIsSearching(true); setHasSearched(true); setSearchedQuery(genre); setMovies([]);
  const genreMovies = await fetchAllMoviesByGenre(genre);
  setMovies(genreMovies); setIsSearching(false);
  \<close>
\<close>

definition handleGenreSelect :: "omdb \<Rightarrow> string \<Rightarrow> app_state \<Rightarrow> error option \<times> app_state" where
  "handleGenreSelect srv genre st =
     (if genre = []
      then (None, st\<lparr>selectedGenre := genre, movies := [], hasSearched := False,
                      query := [], searchedQuery := []\<rparr>)
      else
        (let searching = st\<lparr>selectedGenre := genre, isSearching := True, hasSearched := True,
                              searchedQuery := genre, movies := []\<rparr>
         in case outcome (fetchAllMoviesByGenre srv genre) of
              Inl e \<Rightarrow> (Some e, searching)
            | Inr genreMovies \<Rightarrow>
                (None, searching\<lparr>movies := genreMovies, isSearching := False\<rparr>)))"

text \<open>
  \<^verbatim>\<open>handleBack\<close>, lines 452-468:
  \<^verbatim>\<open>
  if (searchHistory.length > 0) {
    const previousSearch = searchHistory[searchHistory.length - 1];
    setSearchHistory(prev => prev.slice(0, -1));
    setMovies(previousSearch.movies);
    setSearchedQuery(previousSearch.query);
    setQuery(previousSearch.query);
  } else {
    setMovies([]); setQuery(''); setSearchedQuery(''); setHasSearched(false); setSelectedGenre('');
  }
  \<close>
\<close>

definition handleBack :: "app_state \<Rightarrow> app_state" where
  "handleBack st =
     (if length (searchHistory st) > 0
      then (let previousSearch = searchHistory st ! (length (searchHistory st) - 1)
            in st\<lparr>searchHistory := take (length (searchHistory st) - 1) (searchHistory st),
                  movies := entry_movies previousSearch,
                  searchedQuery := entry_query previousSearch,
                  query := entry_query previousSearch\<rparr>)
      else st\<lparr>movies := [], query := [], searchedQuery := [], hasSearched := False,
              selectedGenre := []\<rparr>)"

text \<open>
  The three conditional blocks of the result area (lines 789-814):
  \<^verbatim>\<open>
  {hasSearched && !isSearching && movies.length === 0 && ( <div className="no-results">... )}
  {!hasSearched && movies.length === 0 && suggested.length > 0 && ( ...suggested.map(renderCard)... )}
  {movies.length > 0 && ( ...movies.map(renderCard)... )}
  \<close>
  and the movies whose cards are rendered, in document order.
\<close>

definition shows_no_results :: "app_state \<Rightarrow> bool" where
  "shows_no_results st = (hasSearched st \<and> \<not> isSearching st \<and> length (movies st) = 0)"

definition shows_suggested :: "app_state \<Rightarrow> bool" where
  "shows_suggested st = (\<not> hasSearched st \<and> length (movies st) = 0 \<and> length (suggested st) > 0)"

definition shows_results :: "app_state \<Rightarrow> bool" where
  "shows_results st = (length (movies st) > 0)"

definition rendered_cards :: "app_state \<Rightarrow> Movie list" where
  "rendered_cards st =
     (if shows_suggested st then suggested st else []) @
     (if shows_results st then movies st else [])"

text \<open>
  The user's operations on the search controller: typing in the search field
  (\<^verbatim>\<open>onChange={(e) => setQuery(e.target.value)}\<close>), submitting, choosing an entry of the
  genre filter, and "back". Each runs its handler to the end, and the provider answers a
  request the same way whenever it is made.
\<close>

datatype operation = Type string | Submit | SelectGenre string | Back

fun operate :: "omdb \<Rightarrow> app_state \<Rightarrow> operation \<Rightarrow> app_state" where
  "operate srv st (Type text) = st\<lparr>query := text\<rparr>"
| "operate srv st Submit = snd (handleSearch srv st)"
| "operate srv st (SelectGenre genre) = snd (handleGenreSelect srv genre st)"
| "operate srv st Back = handleBack st"

definition operations :: "omdb \<Rightarrow> operation list \<Rightarrow> app_state \<Rightarrow> app_state" where
  "operations srv ops st = foldl (operate srv) st ops"

text \<open>States and providers used as concrete inputs below.\<close>

definition after_batman :: app_state where
  "after_batman =
     initial_state\<lparr>query := ''batman'', searchedQuery := ''batman'', movies := [another_movie],
                   suggested := [a_movie], hasSearched := True\<rparr>"

text \<open>The state after the suggestion loader has stored one suggested movie.\<close>

definition loaded :: app_state where
  "loaded = initial_state\<lparr>suggested := [a_movie], weatherReason := ''it is clear''\<rparr>"

definition one_page :: omdb where
  "one_page q p = (if p = 1 then Json (Some [a_movie]) else Json None)"

section \<open>Preview position\<close>

text \<open>
  The position is computed with JavaScript numbers, the binary64 values of IEEE 754: a
  finite value (a real number that binary64 represents; the two zeros are not told
  apart, no comparison does), the two infinities, or NaN.
\<close>

datatype double = Fin real | PosInf | NegInf | NaN

text \<open>
  Rounding to nearest, ties to even, the rounding of every arithmetic operation of
  JavaScript. A real \<open>r\<close> other than 0 with \<open>2 ^ e \<le> \<bar>r\<bar> < 2 ^ (e + 1)\<close> is rounded to a
  multiple of \<open>2 ^ (e - 52)\<close> (53 significant bits), of \<open>2 ^ - 1074\<close> below the normal
  range; a result of magnitude \<open>2 ^ 1024\<close> or more is an infinity.
\<close>

definition round_half_even :: "real \<Rightarrow> int" where
  "round_half_even q =
     (let f = \<lfloor>q\<rfloor>; d = q - of_int f
      in if d < 1 / 2 then f else if d > 1 / 2 then f + 1 else if even f then f else f + 1)"

definition ulp :: "real \<Rightarrow> real" where
  "ulp r = 2 powr of_int (max \<lfloor>log 2 \<bar>r\<bar>\<rfloor> (- 1022) - 52)"

definition round64 :: "real \<Rightarrow> double" where
  "round64 r =
     (if r = 0 then Fin 0
      else let m = ulp r * of_int (round_half_even (r / ulp r))
           in if m \<ge> 2 ^ 1024 then PosInf else if m \<le> - (2 ^ 1024) then NegInf else Fin m)"

text \<open>
  The operations the computation uses: \<^verbatim>\<open>x + y\<close>, \<^verbatim>\<open>x - y\<close> (the sum with
  the negated operand), \<^verbatim>\<open>x / 2\<close>, and the comparisons \<^verbatim>\<open>x < y\<close> and
  \<^verbatim>\<open>x > y\<close>, which are false when an operand is NaN. \<open>dle\<close> and \<open>dge\<close> are
  \<^verbatim>\<open>x <= y\<close> and \<^verbatim>\<open>x >= y\<close>.
\<close>

fun dneg :: "double \<Rightarrow> double" where
  "dneg (Fin x) = Fin (- x)"
| "dneg PosInf = NegInf"
| "dneg NegInf = PosInf"
| "dneg NaN = NaN"

fun dadd :: "double \<Rightarrow> double \<Rightarrow> double" where
  "dadd NaN y = NaN"
| "dadd x NaN = NaN"
| "dadd (Fin x) (Fin y) = round64 (x + y)"
| "dadd PosInf NegInf = NaN"
| "dadd NegInf PosInf = NaN"
| "dadd PosInf y = PosInf"
| "dadd x PosInf = PosInf"
| "dadd NegInf y = NegInf"
| "dadd x NegInf = NegInf"

definition dsub :: "double \<Rightarrow> double \<Rightarrow> double" where
  "dsub x y = dadd x (dneg y)"

fun dhalf :: "double \<Rightarrow> double" where
  "dhalf (Fin x) = round64 (x / 2)"
| "dhalf x = x"

fun dlt :: "double \<Rightarrow> double \<Rightarrow> bool" where
  "dlt NaN y = False"
| "dlt x NaN = False"
| "dlt (Fin x) (Fin y) = (x < y)"
| "dlt x NegInf = False"
| "dlt NegInf y = True"
| "dlt PosInf y = False"
| "dlt x PosInf = True"

definition dgt :: "double \<Rightarrow> double \<Rightarrow> bool" where
  "dgt x y = dlt y x"

definition dle :: "double \<Rightarrow> double \<Rightarrow> bool" where
  "dle x y = (x \<noteq> NaN \<and> y \<noteq> NaN \<and> \<not> dlt y x)"

definition dge :: "double \<Rightarrow> double \<Rightarrow> bool" where
  "dge x y = dle y x"

text \<open>
  \<^verbatim>\<open>window.innerWidth\<close> is an integer number of pixels in a browser (a \<^verbatim>\<open>long\<close> of
  Web IDL); \<open>of_long\<close> is such an integer as a number.
\<close>

definition of_long :: "int \<Rightarrow> double" where
  "of_long n = Fin (of_int n)"

text \<open>
  The timer callback of \<^verbatim>\<open>handleMouseEnter\<close> (lines 487-504), for a card element that
  exists:
  \<^verbatim>\<open>
  const rect = cardElement.getBoundingClientRect();
  const scrollTop = window.scrollY || document.documentElement.scrollTop;
  const scrollLeft = window.scrollX || document.documentElement.scrollLeft;
  let left = rect.left + scrollLeft + (rect.width / 2) - 175;
  const top = rect.top + scrollTop - 20;
  if (left < 10) left = 10;
  if (left + 350 > window.innerWidth - 10) left = window.innerWidth - 360;
  setPreviewPosition({ top, left });
  \<close>
  The fields \<^verbatim>\<open>left\<close>, \<^verbatim>\<open>top\<close> and \<^verbatim>\<open>width\<close> of the rectangle are
  \<open>rect_left\<close>, \<open>rect_top\<close> and \<open>rect_width\<close>; those of the position are \<open>pos_top\<close>
  and \<open>pos_left\<close>. \<open>scrollTop\<close> and \<open>scrollLeft\<close> are the values of the two
  \<^verbatim>\<open>||\<close> expressions.
\<close>

record DOMRect =
  rect_left :: double
  rect_top :: double
  rect_width :: double

record PreviewPosition =
  pos_top :: double
  pos_left :: double

definition previewPosition :: "DOMRect \<Rightarrow> double \<Rightarrow> double \<Rightarrow> double \<Rightarrow> PreviewPosition" where
  "previewPosition rect scrollTop scrollLeft innerWidth =
     (let left0 = dsub (dadd (dadd (rect_left rect) scrollLeft) (dhalf (rect_width rect))) (Fin 175);
          top0 = dsub (dadd (rect_top rect) scrollTop) (Fin 20);
          left1 = (if dlt left0 (Fin 10) then Fin 10 else left0);
          left2 = (if dgt (dadd left1 (Fin 350)) (dsub innerWidth (Fin 10))
                   then dsub innerWidth (Fin 360) else left1)
      in \<lparr>pos_top = top0, pos_left = left2\<rparr>)"

text \<open>
  A card with whole coordinates, and one whose left edge is at \<open>400 + 2 ^ - 44\<close>.
\<close>

definition a_card :: DOMRect where
  "a_card = \<lparr>rect_left = Fin 20, rect_top = Fin 300, rect_width = Fin 150\<rparr>"

definition fine_card :: DOMRect where
  "fine_card = \<lparr>rect_left = Fin (400 + 1 / 2 ^ 44), rect_top = Fin 300, rect_width = Fin 150\<rparr>"

section \<open>Properties of the genre mapper\<close>

text \<open>
  Claim C1. For every integer weather code and every temperature the genre mapper returns
  a value fixed by its two arguments, by first-match rules: a code in 0..3 gives
  "adventure", in 45..48 "mystery", in 51..67 "romance", in 71..77 "fantasy"; for a code
  outside these ranges a temperature of at least 30 gives "action", otherwise a temperature
  of at most 5 gives "family", otherwise the result is "drama". The result is always one of
  the seven genres.
\<close>

theorem getGenreForWeather_rules:
  "(0 \<le> code \<and> code \<le> 3 \<longrightarrow> getGenreForWeather code temp = ''adventure'') \<and>
   (45 \<le> code \<and> code \<le> 48 \<longrightarrow> getGenreForWeather code temp = ''mystery'') \<and>
   (51 \<le> code \<and> code \<le> 67 \<longrightarrow> getGenreForWeather code temp = ''romance'') \<and>
   (71 \<le> code \<and> code \<le> 77 \<longrightarrow> getGenreForWeather code temp = ''fantasy'') \<and>
   (\<not> in_code_range code \<and> temp \<ge> 30 \<longrightarrow> getGenreForWeather code temp = ''action'') \<and>
   (\<not> in_code_range code \<and> \<not> temp \<ge> 30 \<and> temp \<le> 5 \<longrightarrow>
      getGenreForWeather code temp = ''family'') \<and>
   (\<not> in_code_range code \<and> \<not> temp \<ge> 30 \<and> \<not> temp \<le> 5 \<longrightarrow>
      getGenreForWeather code temp = ''drama'') \<and>
   getGenreForWeather code temp \<in> set GENRES"
  by (simp add: getGenreForWeather_def in_code_range_def code_ranges_def GENRES_def)

theorem getGenreForWeather_rules_witness:
  "getGenreForWeather 2 25 = ''adventure'' \<and>
   getGenreForWeather 46 40 = ''mystery'' \<and>
   getGenreForWeather 61 (-3) = ''romance'' \<and>
   getGenreForWeather 75 31 = ''fantasy'' \<and>
   \<not> in_code_range 80 \<and> getGenreForWeather 80 30 = ''action'' \<and>
   \<not> in_code_range 10 \<and> getGenreForWeather 10 5 = ''family'' \<and>
   \<not> in_code_range (-1) \<and> getGenreForWeather (-1) 18 = ''drama''"
  using getGenreForWeather_rules [of 2 25] getGenreForWeather_rules [of 46 40]
    getGenreForWeather_rules [of 61 "-3"] getGenreForWeather_rules [of 75 31]
    getGenreForWeather_rules [of 80 30] getGenreForWeather_rules [of 10 5]
    getGenreForWeather_rules [of "-1" 18]
  by (simp add: in_code_range_def code_ranges_def)

section \<open>Properties of the paginated fetcher\<close>

lemma fetch_loop_char:
  "page \<le> 10 \<Longrightarrow>
   fetch_loop srv page acc reqs =
     (let good = takeWhile (\<lambda>p. is_results (srv p)) [page..<11];
          stop = page + length good;
          every = acc @ concat (map (\<lambda>p. the_results (srv p)) good)
      in if stop = 11 then \<lparr>requests = reqs @ good, outcome = Inr every\<rparr>
         else \<lparr>requests = reqs @ good @ [stop],
               outcome = (case srv stop of Failed e \<Rightarrow> Inl e | _ \<Rightarrow> Inr every)\<rparr>)"
proof (induction srv page acc reqs rule: fetch_loop.induct)
  case (1 srv page allMovies reqs)
  have upt: "[page..<11] = page # [Suc page..<11]"
    using "1.prems" by (simp add: upt_conv_Cons)
  show ?case
  proof (cases "srv page")
    case (Failed e)
    then show ?thesis
      using "1.prems" by (subst fetch_loop.simps) (simp add: upt is_results_def Let_def)
  next
    case (Json body)
    show ?thesis
    proof (cases body)
      case None
      with Json show ?thesis
        using "1.prems" by (subst fetch_loop.simps) (simp add: upt is_results_def Let_def)
    next
      case (Some found)
      have isr: "is_results (srv page)" and tr: "the_results (srv page) = found"
        by (simp_all add: is_results_def the_results_def Json Some)
      show ?thesis
      proof (cases "page = 10")
        case True
        with Json Some show ?thesis
          by (subst fetch_loop.simps) (simp add: is_results_def the_results_def Let_def)
      next
        case False
        then have le: "page + 1 \<le> 10" and ngt: "\<not> page + 1 > 10"
          using "1.prems" by auto
        note ih = "1.IH" [OF Json Some ngt le]
        show ?thesis
          apply (subst fetch_loop.simps)
          apply (simp only: Json Some response.case option.case ngt if_False ih)
          apply (simp add: upt isr tr Let_def split: response.splits)
          done
      qed
    qed
  qed
qed

lemma takeWhile_upt_prefix:
  assumes "1 \<le> n" "n \<le> 10" "\<forall>p. 1 \<le> p \<and> p < n \<longrightarrow> P p" "\<not> P n"
  shows "takeWhile P [1..<11] = [1..<n]"
proof -
  have "[1..<n + (11 - n)] = [1..<n] @ [n..<n + (11 - n)]"
    using assms(1) by (rule upt_add_eq_append)
  moreover have "n + (11 - n) = 11" using assms(2) by simp
  moreover have "[n..<11] = n # [Suc n..<11]" using assms(2) by (simp add: upt_conv_Cons)
  ultimately have split: "[1..<11] = [1..<n] @ n # [Suc n..<11]" by simp
  have "takeWhile P ([1..<n] @ n # [Suc n..<11]) = [1..<n] @ takeWhile P (n # [Suc n..<11])"
    by (rule takeWhile_append2) (use assms(3) in auto)
  then show ?thesis
    using assms(4) by (simp only: split takeWhile.simps if_False append_Nil2)
qed

lemma takeWhile_upt_all:
  assumes "\<forall>p. 1 \<le> p \<and> p \<le> 10 \<longrightarrow> P p"
  shows "takeWhile P [1..<11] = [1..<11]"
  using assms by (simp add: takeWhile_eq_all_conv)

lemma fetchAll_char:
  "fetchAllMoviesByGenre srv q =
     (let good = takeWhile (\<lambda>p. is_results (srv q p)) [1..<11];
          stop = 1 + length good;
          every = pages_before (srv q) stop
      in if stop = 11 then \<lparr>requests = good, outcome = Inr every\<rparr>
         else \<lparr>requests = good @ [stop],
               outcome = (case srv q stop of Failed e \<Rightarrow> Inl e | _ \<Rightarrow> Inr every)\<rparr>)"
proof -
  define good where "good = takeWhile (\<lambda>p. is_results (srv q p)) [1..<11]"
  have len: "length good \<le> 10"
    unfolding good_def using length_takeWhile_le [of "\<lambda>p. is_results (srv q p)" "[1..<11]"] by simp
  have "good = take (length good) [1..<11]"
    unfolding good_def by (rule takeWhile_eq_take)
  then have good: "good = [1..<1 + length good]"
    using len by (simp add: take_upt)
  have pb: "pages_before (srv q) (1 + length good) = concat (map (\<lambda>p. the_results (srv q p)) good)"
    unfolding pages_before_def using good by simp
  have "(1::nat) \<le> 10" by simp
  note fc = fetch_loop_char [OF this, of "srv q" "[]" "[]"]
  show ?thesis
    unfolding fetchAllMoviesByGenre_def fc
    by (simp only: Let_def good_def [symmetric] pb append_Nil)
qed

text \<open>
  Claim C2. For every query and every provider (whatever its responses are), the paginated
  fetch loop returns after at least one and at most 10 page requests, and the pages it
  requests are 1, 2, ... in ascending order. The loop is a total function: its termination
  proof above bounds the iterations by the page ceiling alone, for every response. The
  search handler, which runs the same loop, issues at most 10 page requests as well.
\<close>

theorem fetchAllMoviesByGenre_at_most_10_requests:
  "length (requests (fetchAllMoviesByGenre srv q)) \<le> 10 \<and>
   1 \<le> length (requests (fetchAllMoviesByGenre srv q)) \<and>
   requests (fetchAllMoviesByGenre srv q) =
     [1..<Suc (length (requests (fetchAllMoviesByGenre srv q)))] \<and>
   length (handleSearch_requests srv st) \<le> 10"
proof -
  define good where "good = takeWhile (\<lambda>p. is_results (srv q p)) [1..<11]"
  have len: "length good \<le> 10"
    unfolding good_def using length_takeWhile_le [of "\<lambda>p. is_results (srv q p)" "[1..<11]"] by simp
  have "good = take (length good) [1..<11]"
    unfolding good_def by (rule takeWhile_eq_take)
  then have good: "good = [1..<Suc (length good)]"
    using len by (simp add: take_upt)
  have req: "requests (fetchAllMoviesByGenre srv q) =
      (if 1 + length good = 11 then good else good @ [1 + length good])"
    unfolding fetchAll_char Let_def good_def by simp
  have shape: "length (requests (fetchAllMoviesByGenre srv q)) \<le> 10 \<and>
      1 \<le> length (requests (fetchAllMoviesByGenre srv q)) \<and>
      requests (fetchAllMoviesByGenre srv q) =
        [1..<Suc (length (requests (fetchAllMoviesByGenre srv q)))]"
  proof (cases "length good = 10")
    case True
    then show ?thesis
      using good by (simp add: req)
  next
    case False
    then have "length good < 10" using len by simp
    then show ?thesis
      using good by (simp add: req)
  qed
  have bound: "length (requests (fetch_loop (srv' q') 1 [] [])) \<le> 10" for srv' :: omdb and q'
  proof -
    define good' where "good' = takeWhile (\<lambda>p. is_results (srv' q' p)) [1..<11]"
    have len': "length good' \<le> 10"
      unfolding good'_def
      using length_takeWhile_le [of "\<lambda>p. is_results (srv' q' p)" "[1..<11]"] by simp
    have "requests (fetchAllMoviesByGenre srv' q') =
        (if 1 + length good' = 11 then good' else good' @ [1 + length good'])"
      unfolding fetchAll_char Let_def good'_def by simp
    then have "length (requests (fetchAllMoviesByGenre srv' q')) \<le> 10"
      using len' by (simp split: if_splits)
    then show ?thesis by (simp only: fetchAllMoviesByGenre_def)
  qed
  have "length (handleSearch_requests srv st) \<le> 10"
  proof (cases "handleSearch_begin st")
    case None
    then show ?thesis by (simp add: handleSearch_requests_def)
  next
    case (Some searching)
    then show ?thesis
      using bound [of srv "trim (query st)"]
      by (simp add: handleSearch_requests_def del: fetch_loop.simps)
  qed
  with shape show ?thesis by blast
qed

text \<open>
  Claim C3, as stated, fails on a provider that has more than ten pages of results: here
  pages 1 to 11 all carry a \<^verbatim>\<open>Search\<close> field and page 12 is the first without one, and
  the fetcher returns the movies of pages 1 to 10 only, after ten requests.
\<close>

theorem fetchAllMoviesByGenre_ten_pages_counterexample:
  "list_all is_results (map (eleven_pages ''love'') [1..<12]) \<and>
   eleven_pages ''love'' 12 = Json None \<and>
   length (pages_before (eleven_pages ''love'') 12) = 11 \<and>
   fetchAllMoviesByGenre eleven_pages ''love'' =
     \<lparr>requests = [1, 2, 3, 4, 5, 6, 7, 8, 9, 10],
      outcome = Inr [a_movie, a_movie, a_movie, a_movie, a_movie,
                     a_movie, a_movie, a_movie, a_movie, a_movie]\<rparr> \<and>
   outcome (fetchAllMoviesByGenre eleven_pages ''love'') \<noteq>
     Inr (pages_before (eleven_pages ''love'') 12)"
  by code_simp

text \<open>
  Claim C3, amended. For every provider and query the paginated fetcher returns the
  concatenation, in ascending page order, of the \<^verbatim>\<open>Search\<close> fields of the pages up to
  but excluding the first page, among pages 1 to 10, whose response lacks that field, and
  it requests no page past that one; when all of pages 1 to 10 carry the field it returns
  the concatenation of these ten pages. An empty concatenation is returned as a result, not
  as an error. When the first response that does not carry results is a failed request,
  the failure is what the fetcher yields, not a result.
\<close>

theorem fetchAllMoviesByGenre_concat_capped:
  "(1 \<le> n \<and> n \<le> 10 \<and> (\<forall>p. 1 \<le> p \<and> p < n \<longrightarrow> is_results (srv q p)) \<and> srv q n = Json None \<longrightarrow>
      fetchAllMoviesByGenre srv q =
        \<lparr>requests = [1..<Suc n], outcome = Inr (pages_before (srv q) n)\<rparr>) \<and>
   ((\<forall>p. 1 \<le> p \<and> p \<le> 10 \<longrightarrow> is_results (srv q p)) \<longrightarrow>
      fetchAllMoviesByGenre srv q =
        \<lparr>requests = [1..<11], outcome = Inr (pages_before (srv q) 11)\<rparr>) \<and>
   (1 \<le> n \<and> n \<le> 10 \<and> (\<forall>p. 1 \<le> p \<and> p < n \<longrightarrow> is_results (srv q p)) \<and> srv q n = Failed e \<longrightarrow>
      fetchAllMoviesByGenre srv q = \<lparr>requests = [1..<Suc n], outcome = Inl e\<rparr>) \<and>
   (srv q 1 = Json None \<longrightarrow> outcome (fetchAllMoviesByGenre srv q) = Inr [])"
proof (intro conjI impI)
  assume h: "1 \<le> n \<and> n \<le> 10 \<and> (\<forall>p. 1 \<le> p \<and> p < n \<longrightarrow> is_results (srv q p)) \<and> srv q n = Json None"
  then have "\<not> is_results (srv q n)" by (simp add: is_results_def)
  with h have tw: "takeWhile (\<lambda>p. is_results (srv q p)) [1..<11] = [1..<n]"
    by (intro takeWhile_upt_prefix) auto
  from h have stop: "1 + length [1..<n] = n" and n11: "n \<noteq> 11"
    and upt: "[1..<n] @ [n] = [1..<Suc n]" by auto
  show "fetchAllMoviesByGenre srv q =
        \<lparr>requests = [1..<Suc n], outcome = Inr (pages_before (srv q) n)\<rparr>"
    unfolding fetchAll_char tw Let_def stop upt using h n11 by simp
next
  assume h: "\<forall>p. 1 \<le> p \<and> p \<le> 10 \<longrightarrow> is_results (srv q p)"
  then have tw: "takeWhile (\<lambda>p. is_results (srv q p)) [1..<11] = [1..<11]"
    by (rule takeWhile_upt_all)
  show "fetchAllMoviesByGenre srv q =
        \<lparr>requests = [1..<11], outcome = Inr (pages_before (srv q) 11)\<rparr>"
    unfolding fetchAll_char tw by (simp add: Let_def)
next
  assume h: "1 \<le> n \<and> n \<le> 10 \<and> (\<forall>p. 1 \<le> p \<and> p < n \<longrightarrow> is_results (srv q p)) \<and> srv q n = Failed e"
  then have "\<not> is_results (srv q n)" by (simp add: is_results_def)
  with h have tw: "takeWhile (\<lambda>p. is_results (srv q p)) [1..<11] = [1..<n]"
    by (intro takeWhile_upt_prefix) auto
  from h have stop: "1 + length [1..<n] = n" and n11: "n \<noteq> 11"
    and upt: "[1..<n] @ [n] = [1..<Suc n]" by auto
  show "fetchAllMoviesByGenre srv q = \<lparr>requests = [1..<Suc n], outcome = Inl e\<rparr>"
    unfolding fetchAll_char tw Let_def stop upt using h n11 by simp
next
  assume h: "srv q 1 = Json None"
  then have "\<not> is_results (srv q 1)" by (simp add: is_results_def)
  then have tw: "takeWhile (\<lambda>p. is_results (srv q p)) [1..<11] = []"
    by (simp add: upt_conv_Cons)
  show "outcome (fetchAllMoviesByGenre srv q) = Inr []"
    unfolding fetchAll_char tw using h by (simp add: Let_def pages_before_def)
qed

theorem fetchAllMoviesByGenre_concat_capped_witness:
  "fetchAllMoviesByGenre two_pages ''love'' =
     \<lparr>requests = [1, 2, 3], outcome = Inr [a_movie, a_movie]\<rparr> \<and>
   fetchAllMoviesByGenre eleven_pages ''love'' =
     \<lparr>requests = [1, 2, 3, 4, 5, 6, 7, 8, 9, 10],
      outcome = Inr [a_movie, a_movie, a_movie, a_movie, a_movie,
                     a_movie, a_movie, a_movie, a_movie, a_movie]\<rparr> \<and>
   fetchAllMoviesByGenre fails_on_second ''love'' =
     \<lparr>requests = [1, 2], outcome = Inl NetworkError\<rparr> \<and>
   outcome (fetchAllMoviesByGenre no_results ''love'') = Inr []"
proof -
  have h1: "1 \<le> (3::nat) \<and> (3::nat) \<le> 10 \<and>
      (\<forall>p. 1 \<le> p \<and> p < 3 \<longrightarrow> is_results (two_pages ''love'' p)) \<and>
      two_pages ''love'' 3 = Json None"
    by (simp add: two_pages_def is_results_def)
  have h2: "\<forall>p. 1 \<le> p \<and> p \<le> 10 \<longrightarrow> is_results (eleven_pages ''love'' p)"
    by (simp add: eleven_pages_def is_results_def)
  have h3: "1 \<le> (2::nat) \<and> (2::nat) \<le> 10 \<and>
      (\<forall>p. 1 \<le> p \<and> p < 2 \<longrightarrow> is_results (fails_on_second ''love'' p)) \<and>
      fails_on_second ''love'' 2 = Failed NetworkError"
    by (auto simp add: fails_on_second_def is_results_def)
  have h4: "no_results ''love'' 1 = Json None"
    by (simp add: no_results_def)
  have p1: "pages_before (two_pages ''love'') 3 = [a_movie, a_movie]"
    by code_simp
  have p2: "pages_before (eleven_pages ''love'') 11 = [a_movie, a_movie, a_movie, a_movie, a_movie,
                     a_movie, a_movie, a_movie, a_movie, a_movie]"
    by code_simp
  have u1: "[1..<Suc 3] = [1, 2, 3::nat]" and u2: "[1..<11] = [1, 2, 3, 4, 5, 6, 7, 8, 9, 10::nat]"
    and u3: "[1..<Suc 2] = [1, 2::nat]"
    by code_simp+
  note c1 = fetchAllMoviesByGenre_concat_capped
    [of 3 two_pages "''love''" NetworkError, THEN conjunct1, THEN mp, OF h1]
  note c2 = fetchAllMoviesByGenre_concat_capped
    [of 3 eleven_pages "''love''" NetworkError, THEN conjunct2, THEN conjunct1, THEN mp, OF h2]
  note c3 = fetchAllMoviesByGenre_concat_capped
    [of 2 fails_on_second "''love''" NetworkError, THEN conjunct2, THEN conjunct2,
     THEN conjunct1, THEN mp, OF h3]
  note c4 = fetchAllMoviesByGenre_concat_capped
    [of 1 no_results "''love''" NetworkError, THEN conjunct2, THEN conjunct2,
     THEN conjunct2, THEN mp, OF h4]
  from c1 c2 c3 c4 show ?thesis unfolding p1 p2 u1 u2 u3 by blast
qed

section \<open>Properties of the trailer resolver\<close>

lemma find_first:
  "P v \<Longrightarrow> \<forall>u\<in>set before. \<not> P u \<Longrightarrow> find P (before @ v # after) = Some v"
  by (induction before) simp_all

lemma find_none: "\<forall>u\<in>set xs. \<not> P u \<Longrightarrow> find P xs = None"
  by (simp add: find_None_iff)

lemma fetchTrailer_configured:
  assumes "apiKey = Some k" "k \<noteq> []"
    and "search_movie srv title year = Json (Some (first # others))"
    and "movie_videos srv (tmdb_id first) = Json (Some results)"
  shows "fetchTrailerFromTMDB apiKey srv title year = Inr (key_or_null (select_trailer results))"
proof (cases results)
  case Nil
  then show ?thesis
    using assms
    by (simp add: fetchTrailerFromTMDB_def trailer_lookup_def key_or_null_def select_trailer_def)
next
  case (Cons r rs)
  then show ?thesis
    using assms by (simp add: fetchTrailerFromTMDB_def trailer_lookup_def)
qed

lemma fetchTrailer_never_rejects:
  "\<exists>found. fetchTrailerFromTMDB apiKey srv title year = Inr found"
  by (simp add: fetchTrailerFromTMDB_def split: sum.splits)

lemma fetchTrailer_search_failed:
  "search_movie srv title year = Failed e \<Longrightarrow>
   fetchTrailerFromTMDB apiKey srv title year = Inr None"
  by (simp add: fetchTrailerFromTMDB_def trailer_lookup_def)

lemma fetchTrailer_videos_failed:
  "search_movie srv title year = Json (Some (first # others)) \<Longrightarrow>
   movie_videos srv (tmdb_id first) = Failed e \<Longrightarrow>
   fetchTrailerFromTMDB apiKey srv title year = Inr None"
  by (simp add: fetchTrailerFromTMDB_def trailer_lookup_def)

text \<open>
  Claim C7, as stated, fails on two inputs. The first entry of a listing is a "Trailer" on
  YouTube whose key is empty, followed by a "Teaser" on YouTube with a key: the resolver
  returns None, neither the key of the first "Trailer" (the empty string), as the claim
  has it, nor that of the "Teaser". And without an API key the resolver returns None for
  a listing whose first entry is a "Trailer" on YouTube with the key "y1".
\<close>

theorem fetchTrailerFromTMDB_key_counterexample:
  "specified_key [keyless_trailer, teaser] = Some [] \<and>
   fetchTrailerFromTMDB (Some ''k'') (tmdb_with [keyless_trailer, teaser])
     ''Love Actually'' ''2003'' = Inr None \<and>
   specified_key [official_trailer] = Some ''y1'' \<and>
   fetchTrailerFromTMDB None (tmdb_with [official_trailer]) ''Love Actually'' ''2003'' =
     Inr None"
  by (simp add: specified_key_def keyless_trailer_def teaser_def official_trailer_def
      fetchTrailerFromTMDB_def trailer_lookup_def tmdb_with_def select_trailer_def
      key_or_null_def)

text \<open>
  Claim C7, amended. For every title and year and every pair of provider responses the
  promise of the trailer resolver is never rejected: the resolver returns None when no
  API key is configured, when the title search or the video listing fails (network or
  parse failure), when the title search has no results field or no match, and when the
  video listing has no results field. With the API key configured, a first match of the
  title search and a video listing of that match, the resolver selects the first entry
  whose type is "Trailer" and whose site is "YouTube"; when there is none, the first
  entry whose type is "Teaser" on that site; when there is none either, the first entry
  on that site. It returns the key of the selected entry when that key is not empty, and
  None when the key of the selected entry is empty (no other entry is tried) or when no
  entry is on that site.
\<close>

theorem fetchTrailerFromTMDB_priority:
  "(\<exists>found. fetchTrailerFromTMDB apiKey srv title year = Inr found) \<and>
   (apiKey = None \<or> apiKey = Some [] \<longrightarrow>
      fetchTrailerFromTMDB apiKey srv title year = Inr None) \<and>
   (search_movie srv title year = Failed e \<longrightarrow>
      fetchTrailerFromTMDB apiKey srv title year = Inr None) \<and>
   (search_movie srv title year = Json None \<longrightarrow>
      fetchTrailerFromTMDB apiKey srv title year = Inr None) \<and>
   (search_movie srv title year = Json (Some []) \<longrightarrow>
      fetchTrailerFromTMDB apiKey srv title year = Inr None) \<and>
   (search_movie srv title year = Json (Some (first # others)) \<and>
    movie_videos srv (tmdb_id first) = Failed e \<longrightarrow>
      fetchTrailerFromTMDB apiKey srv title year = Inr None) \<and>
   (search_movie srv title year = Json (Some (first # others)) \<and>
    movie_videos srv (tmdb_id first) = Json None \<longrightarrow>
      fetchTrailerFromTMDB apiKey srv title year = Inr None) \<and>
   (apiKey = Some k \<and> k \<noteq> [] \<and>
    search_movie srv title year = Json (Some (first # others)) \<and>
    movie_videos srv (tmdb_id first) = Json (Some results) \<longrightarrow>
      (results = before @ v # after \<and> type v = ''Trailer'' \<and> site v = ''YouTube'' \<and>
       (\<forall>u\<in>set before. \<not> (type u = ''Trailer'' \<and> site u = ''YouTube'')) \<longrightarrow>
         fetchTrailerFromTMDB apiKey srv title year =
           Inr (if key v = [] then None else Some (key v))) \<and>
      ((\<forall>u\<in>set results. \<not> (type u = ''Trailer'' \<and> site u = ''YouTube'')) \<and>
       results = before @ v # after \<and> type v = ''Teaser'' \<and> site v = ''YouTube'' \<and>
       (\<forall>u\<in>set before. \<not> (type u = ''Teaser'' \<and> site u = ''YouTube'')) \<longrightarrow>
         fetchTrailerFromTMDB apiKey srv title year =
           Inr (if key v = [] then None else Some (key v))) \<and>
      ((\<forall>u\<in>set results. \<not> (type u = ''Trailer'' \<and> site u = ''YouTube'')) \<and>
       (\<forall>u\<in>set results. \<not> (type u = ''Teaser'' \<and> site u = ''YouTube'')) \<and>
       results = before @ v # after \<and> site v = ''YouTube'' \<and>
       (\<forall>u\<in>set before. site u \<noteq> ''YouTube'') \<longrightarrow>
         fetchTrailerFromTMDB apiKey srv title year =
           Inr (if key v = [] then None else Some (key v))) \<and>
      ((\<forall>u\<in>set results. site u \<noteq> ''YouTube'') \<longrightarrow>
         fetchTrailerFromTMDB apiKey srv title year = Inr None))"
proof (intro conjI impI)
  show "\<exists>found. fetchTrailerFromTMDB apiKey srv title year = Inr found"
    by (rule fetchTrailer_never_rejects)
next
  assume "apiKey = None \<or> apiKey = Some []"
  then show "fetchTrailerFromTMDB apiKey srv title year = Inr None"
    by (auto simp add: fetchTrailerFromTMDB_def)
next
  assume "search_movie srv title year = Failed e"
  then show "fetchTrailerFromTMDB apiKey srv title year = Inr None"
    by (rule fetchTrailer_search_failed)
next
  assume "search_movie srv title year = Json None"
  then show "fetchTrailerFromTMDB apiKey srv title year = Inr None"
    by (simp add: fetchTrailerFromTMDB_def trailer_lookup_def)
next
  assume "search_movie srv title year = Json (Some [])"
  then show "fetchTrailerFromTMDB apiKey srv title year = Inr None"
    by (simp add: fetchTrailerFromTMDB_def trailer_lookup_def)
next
  assume "search_movie srv title year = Json (Some (first # others)) \<and>
    movie_videos srv (tmdb_id first) = Json None"
  then show "fetchTrailerFromTMDB apiKey srv title year = Inr None"
    by (simp add: fetchTrailerFromTMDB_def trailer_lookup_def)
next
  assume "search_movie srv title year = Json (Some (first # others)) \<and>
    movie_videos srv (tmdb_id first) = Failed e"
  then show "fetchTrailerFromTMDB apiKey srv title year = Inr None"
    using fetchTrailer_videos_failed by blast
next
  assume c: "apiKey = Some k \<and> k \<noteq> [] \<and>
    search_movie srv title year = Json (Some (first # others)) \<and>
    movie_videos srv (tmdb_id first) = Json (Some results)"
  then have r: "fetchTrailerFromTMDB apiKey srv title year =
      Inr (key_or_null (select_trailer results))"
    using fetchTrailer_configured by blast
  assume h: "results = before @ v # after \<and> type v = ''Trailer'' \<and> site v = ''YouTube'' \<and>
       (\<forall>u\<in>set before. \<not> (type u = ''Trailer'' \<and> site u = ''YouTube''))"
  from h have "find (\<lambda>v. type v = ''Trailer'' \<and> site v = ''YouTube'') (before @ v # after) = Some v"
    by (intro find_first) simp_all
  with h have "find (\<lambda>v. type v = ''Trailer'' \<and> site v = ''YouTube'') results = Some v"
    by simp
  then show "fetchTrailerFromTMDB apiKey srv title year =
           Inr (if key v = [] then None else Some (key v))"
    unfolding r by (simp add: select_trailer_def key_or_null_def)
next
  assume c: "apiKey = Some k \<and> k \<noteq> [] \<and>
    search_movie srv title year = Json (Some (first # others)) \<and>
    movie_videos srv (tmdb_id first) = Json (Some results)"
  then have r: "fetchTrailerFromTMDB apiKey srv title year =
      Inr (key_or_null (select_trailer results))"
    using fetchTrailer_configured by blast
  assume h: "(\<forall>u\<in>set results. \<not> (type u = ''Trailer'' \<and> site u = ''YouTube'')) \<and>
       results = before @ v # after \<and> type v = ''Teaser'' \<and> site v = ''YouTube'' \<and>
       (\<forall>u\<in>set before. \<not> (type u = ''Teaser'' \<and> site u = ''YouTube''))"
  then have n1: "find (\<lambda>v. type v = ''Trailer'' \<and> site v = ''YouTube'') results = None"
    by (intro find_none) simp
  from h have "find (\<lambda>v. type v = ''Teaser'' \<and> site v = ''YouTube'') (before @ v # after) = Some v"
    by (intro find_first) simp_all
  with h have "find (\<lambda>v. type v = ''Teaser'' \<and> site v = ''YouTube'') results = Some v"
    by simp
  with n1 show "fetchTrailerFromTMDB apiKey srv title year =
           Inr (if key v = [] then None else Some (key v))"
    unfolding r by (simp add: select_trailer_def key_or_null_def)
next
  assume c: "apiKey = Some k \<and> k \<noteq> [] \<and>
    search_movie srv title year = Json (Some (first # others)) \<and>
    movie_videos srv (tmdb_id first) = Json (Some results)"
  then have r: "fetchTrailerFromTMDB apiKey srv title year =
      Inr (key_or_null (select_trailer results))"
    using fetchTrailer_configured by blast
  assume h: "(\<forall>u\<in>set results. \<not> (type u = ''Trailer'' \<and> site u = ''YouTube'')) \<and>
       (\<forall>u\<in>set results. \<not> (type u = ''Teaser'' \<and> site u = ''YouTube'')) \<and>
       results = before @ v # after \<and> site v = ''YouTube'' \<and>
       (\<forall>u\<in>set before. site u \<noteq> ''YouTube'')"
  then have n1: "find (\<lambda>v. type v = ''Trailer'' \<and> site v = ''YouTube'') results = None"
    by (intro find_none) simp
  from h have n2: "find (\<lambda>v. type v = ''Teaser'' \<and> site v = ''YouTube'') results = None"
    by (intro find_none) simp
  from h have "find (\<lambda>v. site v = ''YouTube'') (before @ v # after) = Some v"
    by (intro find_first) simp_all
  with h have "find (\<lambda>v. site v = ''YouTube'') results = Some v"
    by simp
  with n1 n2 show "fetchTrailerFromTMDB apiKey srv title year =
           Inr (if key v = [] then None else Some (key v))"
    unfolding r by (simp add: select_trailer_def key_or_null_def)
next
  assume c: "apiKey = Some k \<and> k \<noteq> [] \<and>
    search_movie srv title year = Json (Some (first # others)) \<and>
    movie_videos srv (tmdb_id first) = Json (Some results)"
  then have r: "fetchTrailerFromTMDB apiKey srv title year =
      Inr (key_or_null (select_trailer results))"
    using fetchTrailer_configured by blast
  assume h: "\<forall>u\<in>set results. site u \<noteq> ''YouTube''"
  then have n1: "find (\<lambda>v. type v = ''Trailer'' \<and> site v = ''YouTube'') results = None"
    by (intro find_none) simp
  from h have n2: "find (\<lambda>v. type v = ''Teaser'' \<and> site v = ''YouTube'') results = None"
    by (intro find_none) simp
  from h have n3: "find (\<lambda>v. site v = ''YouTube'') results = None"
    by (intro find_none) simp
  from n1 n2 n3 show "fetchTrailerFromTMDB apiKey srv title year = Inr None"
    unfolding r by (simp add: select_trailer_def key_or_null_def)
qed

theorem fetchTrailerFromTMDB_priority_witness:
  "fetchTrailerFromTMDB (Some ''k'') (tmdb_with [clip, vimeo_trailer, teaser, official_trailer])
     ''Love Actually'' ''2003'' = Inr (Some ''y1'') \<and>
   fetchTrailerFromTMDB (Some ''k'') (tmdb_with [clip, vimeo_trailer, teaser])
     ''Love Actually'' ''2003'' = Inr (Some ''t1'') \<and>
   fetchTrailerFromTMDB (Some ''k'') (tmdb_with [vimeo_trailer, clip])
     ''Love Actually'' ''2003'' = Inr (Some ''c1'') \<and>
   fetchTrailerFromTMDB (Some ''k'') (tmdb_with [vimeo_trailer])
     ''Love Actually'' ''2003'' = Inr None \<and>
   fetchTrailerFromTMDB (Some ''k'') (tmdb_with [keyless_trailer, teaser])
     ''Love Actually'' ''2003'' = Inr None \<and>
   fetchTrailerFromTMDB (Some ''k'') tmdb_search_down ''Love Actually'' ''2003'' = Inr None \<and>
   fetchTrailerFromTMDB (Some ''k'') tmdb_videos_garbled ''Love Actually'' ''2003'' = Inr None \<and>
   fetchTrailerFromTMDB (Some ''k'') tmdb_no_results_field ''Love Actually'' ''2003'' = Inr None \<and>
   fetchTrailerFromTMDB (Some ''k'') tmdb_no_match ''Love Actually'' ''2003'' = Inr None \<and>
   fetchTrailerFromTMDB (Some ''k'') tmdb_videos_no_field ''Love Actually'' ''2003'' = Inr None \<and>
   fetchTrailerFromTMDB None (tmdb_with [official_trailer]) ''Love Actually'' ''2003'' = Inr None \<and>
   fetchTrailerFromTMDB (Some []) (tmdb_with [official_trailer]) ''Love Actually'' ''2003'' =
     Inr None"
proof -
  let ?t = "''Love Actually''" and ?y = "''2003''"
  note p = fetchTrailerFromTMDB_priority
  have cfg: "\<And>results. Some ''k'' = Some ''k'' \<and> ''k'' \<noteq> [] \<and>
      search_movie (tmdb_with results) ?t ?y = Json (Some (\<lparr>tmdb_id = 508\<rparr> # [])) \<and>
      movie_videos (tmdb_with results) (tmdb_id \<lparr>tmdb_id = 508\<rparr>) = Json (Some results)"
    by (simp add: tmdb_with_def)
  have h1: "[clip, vimeo_trailer, teaser, official_trailer] =
        [clip, vimeo_trailer, teaser] @ official_trailer # [] \<and>
      type official_trailer = ''Trailer'' \<and> site official_trailer = ''YouTube'' \<and>
      (\<forall>u\<in>set [clip, vimeo_trailer, teaser]. \<not> (type u = ''Trailer'' \<and> site u = ''YouTube''))"
    by (simp add: clip_def vimeo_trailer_def teaser_def official_trailer_def)
  have h2: "(\<forall>u\<in>set [clip, vimeo_trailer, teaser]. \<not> (type u = ''Trailer'' \<and> site u = ''YouTube'')) \<and>
      [clip, vimeo_trailer, teaser] = [clip, vimeo_trailer] @ teaser # [] \<and>
      type teaser = ''Teaser'' \<and> site teaser = ''YouTube'' \<and>
      (\<forall>u\<in>set [clip, vimeo_trailer]. \<not> (type u = ''Teaser'' \<and> site u = ''YouTube''))"
    by (simp add: clip_def vimeo_trailer_def teaser_def)
  have h3: "(\<forall>u\<in>set [vimeo_trailer, clip]. \<not> (type u = ''Trailer'' \<and> site u = ''YouTube'')) \<and>
      (\<forall>u\<in>set [vimeo_trailer, clip]. \<not> (type u = ''Teaser'' \<and> site u = ''YouTube'')) \<and>
      [vimeo_trailer, clip] = [vimeo_trailer] @ clip # [] \<and> site clip = ''YouTube'' \<and>
      (\<forall>u\<in>set [vimeo_trailer]. site u \<noteq> ''YouTube'')"
    by (simp add: clip_def vimeo_trailer_def)
  have h4: "\<forall>u\<in>set [vimeo_trailer]. site u \<noteq> ''YouTube''"
    by (simp add: vimeo_trailer_def)
  have h5: "[keyless_trailer, teaser] = [] @ keyless_trailer # [teaser] \<and>
      type keyless_trailer = ''Trailer'' \<and> site keyless_trailer = ''YouTube'' \<and>
      (\<forall>u\<in>set []. \<not> (type u = ''Trailer'' \<and> site u = ''YouTube''))"
    by (simp add: keyless_trailer_def)
  have f1: "search_movie tmdb_search_down ?t ?y = Failed NetworkError"
    by (simp add: tmdb_search_down_def)
  have f2: "search_movie tmdb_videos_garbled ?t ?y = Json (Some (\<lparr>tmdb_id = 508\<rparr> # [])) \<and>
      movie_videos tmdb_videos_garbled (tmdb_id \<lparr>tmdb_id = 508\<rparr>) = Failed ParseError"
    by (simp add: tmdb_videos_garbled_def)
  have f3: "search_movie tmdb_no_results_field ?t ?y = Json None"
    by (simp add: tmdb_no_results_field_def)
  have f4: "search_movie tmdb_no_match ?t ?y = Json (Some [])"
    by (simp add: tmdb_no_match_def)
  have f5: "search_movie tmdb_videos_no_field ?t ?y = Json (Some (\<lparr>tmdb_id = 508\<rparr> # [])) \<and>
      movie_videos tmdb_videos_no_field (tmdb_id \<lparr>tmdb_id = 508\<rparr>) = Json None"
    by (simp add: tmdb_videos_no_field_def)
  have f6: "(None :: string option) = None \<or> (None :: string option) = Some []"
    by simp
  have f7: "Some [] = (None :: string option) \<or> Some [] = Some ([] :: string)"
    by simp
  have c1: "fetchTrailerFromTMDB (Some ''k'') (tmdb_with [clip, vimeo_trailer, teaser, official_trailer])
     ?t ?y = Inr (Some ''y1'')"
    using p [where apiKey = "Some ''k''" and k = "''k''" and title = ?t and year = ?y
        and srv = "tmdb_with [clip, vimeo_trailer, teaser, official_trailer]"
        and first = "\<lparr>tmdb_id = 508\<rparr>" and others = "[]"
        and results = "[clip, vimeo_trailer, teaser, official_trailer]"
        and before = "[clip, vimeo_trailer, teaser]" and v = official_trailer and after = "[]",
        THEN conjunct2, THEN conjunct2, THEN conjunct2, THEN conjunct2, THEN conjunct2,
        THEN conjunct2, THEN conjunct2, THEN mp, OF cfg, THEN conjunct1, THEN mp, OF h1]
    by (simp add: official_trailer_def)
  have c2: "fetchTrailerFromTMDB (Some ''k'') (tmdb_with [clip, vimeo_trailer, teaser])
     ?t ?y = Inr (Some ''t1'')"
    using p [where apiKey = "Some ''k''" and k = "''k''" and title = ?t and year = ?y
        and srv = "tmdb_with [clip, vimeo_trailer, teaser]"
        and first = "\<lparr>tmdb_id = 508\<rparr>" and others = "[]"
        and results = "[clip, vimeo_trailer, teaser]"
        and before = "[clip, vimeo_trailer]" and v = teaser and after = "[]",
        THEN conjunct2, THEN conjunct2, THEN conjunct2, THEN conjunct2, THEN conjunct2,
        THEN conjunct2, THEN conjunct2, THEN mp, OF cfg, THEN conjunct2, THEN conjunct1, THEN mp, OF h2]
    by (simp add: teaser_def)
  have c3: "fetchTrailerFromTMDB (Some ''k'') (tmdb_with [vimeo_trailer, clip])
     ?t ?y = Inr (Some ''c1'')"
    using p [where apiKey = "Some ''k''" and k = "''k''" and title = ?t and year = ?y
        and srv = "tmdb_with [vimeo_trailer, clip]"
        and first = "\<lparr>tmdb_id = 508\<rparr>" and others = "[]"
        and results = "[vimeo_trailer, clip]"
        and before = "[vimeo_trailer]" and v = clip and after = "[]",
        THEN conjunct2, THEN conjunct2, THEN conjunct2, THEN conjunct2, THEN conjunct2,
        THEN conjunct2, THEN conjunct2, THEN mp, OF cfg, THEN conjunct2, THEN conjunct2, THEN conjunct1, THEN mp, OF h3]
    by (simp add: clip_def)
  have c4: "fetchTrailerFromTMDB (Some ''k'') (tmdb_with [vimeo_trailer]) ?t ?y = Inr None"
    using p [where apiKey = "Some ''k''" and k = "''k''" and title = ?t and year = ?y
        and srv = "tmdb_with [vimeo_trailer]"
        and first = "\<lparr>tmdb_id = 508\<rparr>" and others = "[]"
        and results = "[vimeo_trailer]",
        THEN conjunct2, THEN conjunct2, THEN conjunct2, THEN conjunct2, THEN conjunct2,
        THEN conjunct2, THEN conjunct2, THEN mp, OF cfg, THEN conjunct2, THEN conjunct2, THEN conjunct2, THEN mp, OF h4] .
  have c5: "fetchTrailerFromTMDB (Some ''k'') (tmdb_with [keyless_trailer, teaser]) ?t ?y = Inr None"
    using p [where apiKey = "Some ''k''" and k = "''k''" and title = ?t and year = ?y
        and srv = "tmdb_with [keyless_trailer, teaser]"
        and first = "\<lparr>tmdb_id = 508\<rparr>" and others = "[]"
        and results = "[keyless_trailer, teaser]"
        and before = "[]" and v = keyless_trailer and after = "[teaser]",
        THEN conjunct2, THEN conjunct2, THEN conjunct2, THEN conjunct2, THEN conjunct2,
        THEN conjunct2, THEN conjunct2, THEN mp, OF cfg, THEN conjunct1, THEN mp, OF h5]
    by (simp add: keyless_trailer_def)
  have c6: "fetchTrailerFromTMDB (Some ''k'') tmdb_search_down ?t ?y = Inr None"
    using p [where apiKey = "Some ''k''" and title = ?t and year = ?y
        and srv = tmdb_search_down and e = NetworkError,
        THEN conjunct2, THEN conjunct2, THEN conjunct1, THEN mp, OF f1] .
  have c7: "fetchTrailerFromTMDB (Some ''k'') tmdb_videos_garbled ?t ?y = Inr None"
    using p [where apiKey = "Some ''k''" and title = ?t and year = ?y
        and srv = tmdb_videos_garbled and e = ParseError
        and first = "\<lparr>tmdb_id = 508\<rparr>" and others = "[]",
        THEN conjunct2, THEN conjunct2, THEN conjunct2, THEN conjunct2, THEN conjunct2,
        THEN conjunct1, THEN mp, OF f2] .
  have c8: "fetchTrailerFromTMDB (Some ''k'') tmdb_no_results_field ?t ?y = Inr None"
    using p [where apiKey = "Some ''k''" and title = ?t and year = ?y
        and srv = tmdb_no_results_field,
        THEN conjunct2, THEN conjunct2, THEN conjunct2, THEN conjunct1, THEN mp, OF f3] .
  have c9: "fetchTrailerFromTMDB (Some ''k'') tmdb_no_match ?t ?y = Inr None"
    using p [where apiKey = "Some ''k''" and title = ?t and year = ?y
        and srv = tmdb_no_match,
        THEN conjunct2, THEN conjunct2, THEN conjunct2, THEN conjunct2, THEN conjunct1,
        THEN mp, OF f4] .
  have c10: "fetchTrailerFromTMDB (Some ''k'') tmdb_videos_no_field ?t ?y = Inr None"
    using p [where apiKey = "Some ''k''" and title = ?t and year = ?y
        and srv = tmdb_videos_no_field
        and first = "\<lparr>tmdb_id = 508\<rparr>" and others = "[]",
        THEN conjunct2, THEN conjunct2, THEN conjunct2, THEN conjunct2, THEN conjunct2,
        THEN conjunct2, THEN conjunct1, THEN mp, OF f5] .
  have c11: "fetchTrailerFromTMDB None (tmdb_with [official_trailer]) ?t ?y = Inr None"
    using p [where apiKey = None and title = ?t and year = ?y
        and srv = "tmdb_with [official_trailer]", THEN conjunct2, THEN conjunct1, THEN mp,
        OF f6] .
  have c12: "fetchTrailerFromTMDB (Some []) (tmdb_with [official_trailer]) ?t ?y = Inr None"
    using p [where apiKey = "Some []" and title = ?t and year = ?y
        and srv = "tmdb_with [official_trailer]", THEN conjunct2, THEN conjunct1, THEN mp,
        OF f7] .
  from c1 c2 c3 c4 c5 c6 c7 c8 c9 c10 c11 c12 show ?thesis by blast
qed

section \<open>Properties of the trailer cache\<close>

lemma session_Nil: "session [] s = s"
  by (simp add: session_def)

lemma session_Cons: "session (e # es) s = session es (preview_step s e)"
  by (simp add: session_def)

lemma remove_nth_subset: "set (take i xs @ drop (Suc i) xs) \<subseteq> set xs"
  using set_take_subset [of i xs] set_drop_subset [of "Suc i" xs] by auto

lemma remove_nth_keeps:
  assumes x: "x \<in> set xs" and i: "i < length xs" and ne: "xs ! i \<noteq> x"
  shows "x \<in> set (take i xs @ drop (Suc i) xs)"
proof -
  have "set xs = set (take i xs @ xs ! i # drop (Suc i) xs)"
    by (rule arg_cong [where f = set, OF id_take_nth_drop [OF i]])
  also have "\<dots> = insert (xs ! i) (set (take i xs @ drop (Suc i) xs))"
    by simp
  finally have eq: "set xs = insert (xs ! i) (set (take i xs @ drop (Suc i) xs))" .
  from x have "x \<in> insert (xs ! i) (set (take i xs @ drop (Suc i) xs))"
    by (simp only: eq [symmetric])
  with ne show ?thesis by (simp only: insert_iff) metis
qed

lemma count_list_snoc: "count_list (xs @ [x]) y = count_list xs y + (if x = y then 1 else 0)"
  by (induction xs) simp_all

lemma hover_cached:
  "trailerCache s (imdbID movie) = Some entry \<Longrightarrow>
   hover_effect (Some movie) s =
     s\<lparr>hoveredMovie := Some movie,
       trailer := \<lparr>youtubeKey = entry, loading = False, error = (entry = None)\<rparr>\<rparr>"
  by (simp add: hover_effect_def)

lemma step_keeps_entry:
  "trailerCache s mid \<noteq> None \<Longrightarrow>
   trailerCache (preview_step s e) mid \<noteq> None \<and>
   count_list (lookups (preview_step s e)) mid = count_list (lookups s) mid"
proof (cases e)
  case (Hovered hovered)
  assume c: "trailerCache s mid \<noteq> None"
  show ?thesis
  proof (cases hovered)
    case None
    with Hovered c show ?thesis by (simp add: hover_effect_def)
  next
    case (Some movie)
    show ?thesis
    proof (cases "trailerCache s (imdbID movie)")
      case None
      then have "imdbID movie \<noteq> mid" using c by auto
      with Hovered Some None c show ?thesis
        by (simp add: hover_effect_def count_list_snoc)
    next
      case (Some entry)
      with Hovered \<open>hovered = Some movie\<close> c show ?thesis
        by (simp add: hover_effect_def)
    qed
  qed
next
  case (Settled i found)
  assume c: "trailerCache s mid \<noteq> None"
  with Settled show ?thesis by (simp add: lookup_settled_def)
qed

lemma session_keeps_entry:
  "trailerCache s mid \<noteq> None \<Longrightarrow>
   trailerCache (session events s) mid \<noteq> None \<and>
   count_list (lookups (session events s)) mid = count_list (lookups s) mid"
proof (induction events arbitrary: s)
  case Nil
  then show ?case by (simp add: session_Nil)
next
  case (Cons e es)
  from step_keeps_entry [OF Cons.prems, of e]
  have a: "trailerCache (preview_step s e) mid \<noteq> None"
    and b: "count_list (lookups (preview_step s e)) mid = count_list (lookups s) mid"
    by simp_all
  from Cons.IH [OF a] b show ?case by (simp add: session_Cons)
qed

lemma step_stable:
  "trailerCache s mid = Some entry \<Longrightarrow> mid \<notin> set (in_flight s) \<Longrightarrow>
   trailerCache (preview_step s e) mid = Some entry \<and> mid \<notin> set (in_flight (preview_step s e))"
proof (cases e)
  case (Hovered hovered)
  assume c: "trailerCache s mid = Some entry" and f: "mid \<notin> set (in_flight s)"
  show ?thesis
  proof (cases hovered)
    case None
    with Hovered c f show ?thesis by (simp add: hover_effect_def)
  next
    case (Some movie)
    show ?thesis
    proof (cases "trailerCache s (imdbID movie)")
      case None
      then have "imdbID movie \<noteq> mid" using c by auto
      with Hovered Some None c f show ?thesis
        by (simp add: hover_effect_def)
    next
      case (Some cached)
      with Hovered \<open>hovered = Some movie\<close> c f show ?thesis
        by (simp add: hover_effect_def)
    qed
  qed
next
  case (Settled i found)
  assume c: "trailerCache s mid = Some entry" and f: "mid \<notin> set (in_flight s)"
  show ?thesis
  proof (cases "i < length (in_flight s)")
    case True
    then have "in_flight s ! i \<in> set (in_flight s)" by simp
    with f have ne: "in_flight s ! i \<noteq> mid" by auto
    have "mid \<notin> set (take i (in_flight s) @ drop (Suc i) (in_flight s))"
      using f remove_nth_subset [of i "in_flight s"] by auto
    with Settled True c ne show ?thesis
      by (simp add: lookup_settled_def)
  next
    case False
    with Settled c f show ?thesis by (simp add: lookup_settled_def)
  qed
qed

lemma session_stable:
  "trailerCache s mid = Some entry \<Longrightarrow> mid \<notin> set (in_flight s) \<Longrightarrow>
   trailerCache (session events s) mid = Some entry \<and> mid \<notin> set (in_flight (session events s))"
proof (induction events arbitrary: s)
  case Nil
  then show ?case by (simp add: session_Nil)
next
  case (Cons e es)
  from step_stable [OF Cons.prems, of e]
  have a: "trailerCache (preview_step s e) mid = Some entry"
    and b: "mid \<notin> set (in_flight (preview_step s e))"
    by simp_all
  from Cons.IH [OF a b] show ?case by (simp add: session_Cons)
qed

lemma once_hover:
  assumes "once mid s" and "imdbID movie = mid \<longrightarrow> mid \<notin> set (in_flight s)"
  shows "once mid (hover_effect (Some movie) s)"
proof (cases "trailerCache s (imdbID movie)")
  case None
  show ?thesis
  proof (cases "imdbID movie = mid")
    case True
    with assms None have "count_list (lookups s) mid = 0" by (simp add: once_def)
    with True None show ?thesis
      by (simp add: once_def hover_effect_def count_list_snoc)
  next
    case False
    with assms(1) None show ?thesis
      by (simp add: once_def hover_effect_def count_list_snoc)
  qed
next
  case (Some cached)
  with assms(1) show ?thesis by (simp add: once_def hover_effect_def)
qed

lemma once_unhover: "once mid s \<Longrightarrow> once mid (hover_effect None s)"
  by (simp add: once_def hover_effect_def)

lemma once_settled: "once mid s \<Longrightarrow> once mid (lookup_settled i found s)"
proof (cases "i < length (in_flight s)")
  case False
  assume "once mid s"
  with False show ?thesis by (simp add: lookup_settled_def)
next
  case True
  assume o: "once mid s"
  show ?thesis
  proof (cases "in_flight s ! i = mid")
    case same: True
    with True o show ?thesis by (simp add: once_def lookup_settled_def)
  next
    case other: False
    have keep: "mid \<in> set (in_flight s) \<Longrightarrow>
        mid \<in> set (take i (in_flight s) @ drop (Suc i) (in_flight s))"
      using remove_nth_keeps [OF _ True other] by simp
    show ?thesis
      using o True other keep
      by (auto simp add: once_def lookup_settled_def)
  qed
qed

lemma once_session:
  "once mid s \<Longrightarrow> unhurried mid s events \<Longrightarrow> once mid (session events s)"
proof (induction events arbitrary: s)
  case Nil
  then show ?case by (simp add: session_Nil)
next
  case (Cons e es)
  show ?case
  proof (cases e)
    case (Hovered hovered)
    show ?thesis
    proof (cases hovered)
      case None
      with Hovered Cons.prems have "unhurried mid (hover_effect None s) es" by simp
      with Cons.IH [OF once_unhover [OF Cons.prems(1)]] Hovered None show ?thesis
        by (simp add: session_Cons)
    next
      case (Some movie)
      with Hovered Cons.prems have u: "imdbID movie = mid \<longrightarrow> mid \<notin> set (in_flight s)"
        and r: "unhurried mid (hover_effect (Some movie) s) es" by simp_all
      from Cons.IH [OF once_hover [OF Cons.prems(1) u] r] Hovered Some show ?thesis
        by (simp add: session_Cons)
    qed
  next
    case (Settled i found)
    with Cons.prems have "unhurried mid (lookup_settled i found s) es" by simp
    with Cons.IH [OF once_settled [OF Cons.prems(1)]] Settled show ?thesis
      by (simp add: session_Cons)
  qed
qed

lemma once_initial: "once mid initial_preview"
  by (simp add: once_def initial_preview_def)

text \<open>
  Claim C4, as stated, fails when the card of a movie is hovered again before the lookup
  started by the first hover has settled: the second hover finds no entry yet and starts
  a second lookup for the same id, and the entry written when the first lookup settles
  (here the negative outcome) is overwritten when the second settles.
\<close>

theorem trailer_lookup_twice_counterexample:
  "imdbID a_movie = ''tt0314331'' \<and>
   lookups (session hover_twice_early initial_preview) = [''tt0314331'', ''tt0314331''] \<and>
   count_list (lookups (session hover_twice_early initial_preview)) ''tt0314331'' = 2 \<and>
   trailerCache (session (take 4 hover_twice_early) initial_preview) ''tt0314331'' = Some None \<and>
   trailerCache (session hover_twice_early initial_preview) ''tt0314331'' = Some (Some ''y1'')"
proof -
  have "imdbID a_movie = ''tt0314331''"
    by (simp add: a_movie_def)
  moreover have "lookups (session hover_twice_early initial_preview) = [''tt0314331'', ''tt0314331'']"
    by code_simp
  moreover have "count_list (lookups (session hover_twice_early initial_preview)) ''tt0314331'' = 2"
    by code_simp
  moreover have "trailerCache (session (take 4 hover_twice_early) initial_preview) ''tt0314331'' = Some None"
    by code_simp
  moreover have "trailerCache (session hover_twice_early initial_preview) ''tt0314331'' = Some (Some ''y1'')"
    by code_simp
  ultimately show ?thesis by blast
qed

text \<open>
  Claim C4, amended. For every movie id and every session (sequence of hover events and
  of lookups settling): once a cache entry for the id is written (the negative outcome
  None included), the id keeps an entry, every later hover over the same movie reads the
  entry that is then cached and writes neither the log of lookups nor the cache, and no
  further lookup is started for that id; once the entry is written and no lookup for the
  id is in flight, the entry is never overwritten; and in a session from the initial state
  in which the movie is never hovered while a lookup for its id is in flight, the lookup
  for that id is started at most once.
\<close>

theorem trailer_cache_reuse:
  "(trailerCache s mid \<noteq> None \<longrightarrow>
      count_list (lookups (session events s)) mid = count_list (lookups s) mid \<and>
      (\<exists>entry. trailerCache (session events s) mid = Some entry \<and>
         (imdbID movie = mid \<longrightarrow>
            trailer (hover_effect (Some movie) (session events s)) =
              \<lparr>youtubeKey = entry, loading = False, error = (entry = None)\<rparr> \<and>
            lookups (hover_effect (Some movie) (session events s)) = lookups (session events s) \<and>
            trailerCache (hover_effect (Some movie) (session events s)) =
              trailerCache (session events s)))) \<and>
   (trailerCache s mid = Some cached \<and> mid \<notin> set (in_flight s) \<longrightarrow>
      trailerCache (session events s) mid = Some cached) \<and>
   (unhurried mid initial_preview events \<longrightarrow>
      count_list (lookups (session events initial_preview)) mid \<le> 1)"
proof (intro conjI impI)
  assume c: "trailerCache s mid \<noteq> None"
  from session_keeps_entry [OF c, of events]
  show "count_list (lookups (session events s)) mid = count_list (lookups s) mid" by simp
  from session_keeps_entry [OF c, of events]
  obtain entry where e: "trailerCache (session events s) mid = Some entry" by auto
  have "imdbID movie = mid \<longrightarrow>
            trailer (hover_effect (Some movie) (session events s)) =
              \<lparr>youtubeKey = entry, loading = False, error = (entry = None)\<rparr> \<and>
            lookups (hover_effect (Some movie) (session events s)) = lookups (session events s) \<and>
            trailerCache (hover_effect (Some movie) (session events s)) =
              trailerCache (session events s)"
    using e by (auto simp add: hover_cached)
  with e show "\<exists>entry. trailerCache (session events s) mid = Some entry \<and>
         (imdbID movie = mid \<longrightarrow>
            trailer (hover_effect (Some movie) (session events s)) =
              \<lparr>youtubeKey = entry, loading = False, error = (entry = None)\<rparr> \<and>
            lookups (hover_effect (Some movie) (session events s)) = lookups (session events s) \<and>
            trailerCache (hover_effect (Some movie) (session events s)) =
              trailerCache (session events s))"
    by blast
next
  assume "trailerCache s mid = Some cached \<and> mid \<notin> set (in_flight s)"
  then show "trailerCache (session events s) mid = Some cached"
    using session_stable [of s mid cached events] by simp
next
  assume "unhurried mid initial_preview events"
  from once_session [OF once_initial this]
  show "count_list (lookups (session events initial_preview)) mid \<le> 1"
    by (simp add: once_def)
qed

theorem trailer_cache_reuse_witness:
  "count_list (lookups (session later_hovers (session hover_once initial_preview))) ''tt0314331'' = 1 \<and>
   trailerCache (session later_hovers (session hover_once initial_preview)) ''tt0314331'' =
     Some (Some ''y1'') \<and>
   trailer (hover_effect (Some a_movie) (session later_hovers (session hover_once initial_preview))) =
     \<lparr>youtubeKey = Some ''y1'', loading = False, error = False\<rparr> \<and>
   lookups (hover_effect (Some a_movie) (session later_hovers (session hover_once initial_preview))) =
     lookups (session later_hovers (session hover_once initial_preview)) \<and>
   unhurried ''tt0314331'' initial_preview (hover_once @ later_hovers) \<and>
   count_list (lookups (session (hover_once @ later_hovers) initial_preview)) ''tt0314331'' \<le> 1"
proof -
  let ?mid = "''tt0314331''"
  let ?s = "session hover_once initial_preview"
  have m: "imdbID a_movie = ?mid"
    by (simp add: a_movie_def)
  have h1: "trailerCache ?s ?mid \<noteq> None"
    by code_simp
  have h2: "trailerCache ?s ?mid = Some (Some ''y1'') \<and> ?mid \<notin> set (in_flight ?s)"
    by code_simp
  have h3: "unhurried ?mid initial_preview (hover_once @ later_hovers)"
    by code_simp
  have n: "count_list (lookups ?s) ?mid = 1"
    by code_simp
  note t = trailer_cache_reuse
    [where s = ?s and mid = ?mid and events = later_hovers and movie = a_movie
       and cached = "Some ''y1''"]
  from t [THEN conjunct1, THEN mp, OF h1]
  obtain entry where c: "count_list (lookups (session later_hovers ?s)) ?mid = count_list (lookups ?s) ?mid"
    and e: "trailerCache (session later_hovers ?s) ?mid = Some entry"
    and r: "imdbID a_movie = ?mid \<longrightarrow>
            trailer (hover_effect (Some a_movie) (session later_hovers ?s)) =
              \<lparr>youtubeKey = entry, loading = False, error = (entry = None)\<rparr> \<and>
            lookups (hover_effect (Some a_movie) (session later_hovers ?s)) =
              lookups (session later_hovers ?s) \<and>
            trailerCache (hover_effect (Some a_movie) (session later_hovers ?s)) =
              trailerCache (session later_hovers ?s)"
    by blast
  from t [THEN conjunct2, THEN conjunct1, THEN mp, OF h2]
  have st: "trailerCache (session later_hovers ?s) ?mid = Some (Some ''y1'')" .
  with e have entry: "entry = Some ''y1''" by simp
  from r m entry
  have r1: "trailer (hover_effect (Some a_movie) (session later_hovers ?s)) =
              \<lparr>youtubeKey = Some ''y1'', loading = False, error = False\<rparr>"
    and r2: "lookups (hover_effect (Some a_movie) (session later_hovers ?s)) =
              lookups (session later_hovers ?s)"
    by simp_all
  from trailer_cache_reuse
    [where mid = ?mid and events = "hover_once @ later_hovers",
     THEN conjunct2, THEN conjunct2, THEN mp, OF h3]
  have u: "count_list (lookups (session (hover_once @ later_hovers) initial_preview)) ?mid \<le> 1" .
  from c n have c1: "count_list (lookups (session later_hovers ?s)) ?mid = 1" by simp
  from c1 st r1 r2 h3 u show ?thesis by blast
qed

section \<open>Properties of the search controller\<close>

lemma trim_genre: "genre \<in> set GENRES \<Longrightarrow> trim genre = genre \<and> genre \<noteq> []"
  by (auto simp add: GENRES_def trim_def is_space_def)

lemma trim_love: "trim '' love '' = ''love''" "trim ''love'' = ''love''" "trim ''batman'' = ''batman''"
  "trim ''action'' = ''action''"
  by (simp_all add: trim_def is_space_def)

text \<open>
  A no-break space is trimmed like a space: a search field that holds only no-break spaces
  and tabs is an empty query, for which \<^verbatim>\<open>handleSearch\<close> returns at once.
\<close>

lemma trim_no_break_space:
  "trim (CHR 0xA0 # ''love'' @ [CHR 0xA0]) = ''love''"
  "trim [CHR 0xA0, CHR 0x09, CHR 0xA0] = []"
  "handleSearch_begin (st\<lparr>query := [CHR 0xA0, CHR 0x09, CHR 0xA0]\<rparr>) = None"
  "handleSearch srv (st\<lparr>query := [CHR 0xA0]\<rparr>) = (None, st\<lparr>query := [CHR 0xA0]\<rparr>)"
  by (simp_all add: trim_def is_space_def handleSearch_begin_def handleSearch_def)

text \<open>
  Claim C5. For every state of the search controller: a submitted search with a non-empty
  trimmed query pushes the pair (searched query, displayed results) onto the history stack
  when a previous search is displayed, and leaves the stack as it is otherwise; "back" on
  a non-empty stack removes the most recent entry and restores exactly its query (in the
  search field and as the searched query) and its result sequence, so that search A, then
  search B, then "back" yields A's query and A's results and the history as it was after
  A; "back" on an empty stack clears the results, the search field and the searched query
  and leaves the has-searched flag unset, so that the cards rendered are the suggestions.
\<close>

theorem search_history_push_and_back:
  "(trim (query st) \<noteq> [] \<and> hasSearched st \<and> searchedQuery st \<noteq> [] \<longrightarrow>
      searchHistory (snd (handleSearch srv st)) =
        searchHistory st @ [\<lparr>entry_query = searchedQuery st, entry_movies = movies st\<rparr>]) \<and>
   (trim (query st) \<noteq> [] \<and> \<not> (hasSearched st \<and> searchedQuery st \<noteq> []) \<longrightarrow>
      searchHistory (snd (handleSearch srv st)) = searchHistory st) \<and>
   (searchHistory st = older @ [entry] \<longrightarrow>
      handleBack st =
        st\<lparr>searchHistory := older, movies := entry_movies entry,
           searchedQuery := entry_query entry, query := entry_query entry\<rparr>) \<and>
   (trim qa \<noteq> [] \<and> trim qb \<noteq> [] \<longrightarrow>
      (let shown_a = snd (handleSearch srv (st\<lparr>query := qa\<rparr>));
           shown_b = snd (handleSearch srv (shown_a\<lparr>query := qb\<rparr>));
           back = handleBack shown_b
       in query back = trim qa \<and> searchedQuery back = trim qa \<and>
          movies back = movies shown_a \<and> searchHistory back = searchHistory shown_a \<and>
          hasSearched back)) \<and>
   (searchHistory st = [] \<longrightarrow>
      handleBack st =
        st\<lparr>movies := [], query := [], searchedQuery := [], hasSearched := False,
           selectedGenre := []\<rparr> \<and>
      \<not> shows_no_results (handleBack st) \<and> \<not> shows_results (handleBack st) \<and>
      rendered_cards (handleBack st) = suggested st)"
proof (intro conjI impI)
  assume "trim (query st) \<noteq> [] \<and> hasSearched st \<and> searchedQuery st \<noteq> []"
  then show "searchHistory (snd (handleSearch srv st)) =
        searchHistory st @ [\<lparr>entry_query = searchedQuery st, entry_movies = movies st\<rparr>]"
    by (simp add: handleSearch_def handleSearch_begin_def handleSearch_end_def Let_def
        split: sum.splits del: fetch_loop.simps)
next
  assume "trim (query st) \<noteq> [] \<and> \<not> (hasSearched st \<and> searchedQuery st \<noteq> [])"
  then show "searchHistory (snd (handleSearch srv st)) = searchHistory st"
    by (auto simp add: handleSearch_def handleSearch_begin_def handleSearch_end_def Let_def
        split: sum.splits simp del: fetch_loop.simps)
next
  assume "searchHistory st = older @ [entry]"
  then show "handleBack st =
        st\<lparr>searchHistory := older, movies := entry_movies entry,
           searchedQuery := entry_query entry, query := entry_query entry\<rparr>"
    by (simp add: handleBack_def Let_def)
next
  assume h: "trim qa \<noteq> [] \<and> trim qb \<noteq> []"
  define shown_a where "shown_a = snd (handleSearch srv (st\<lparr>query := qa\<rparr>))"
  have a: "searchedQuery shown_a = trim qa \<and> hasSearched shown_a"
    using h unfolding shown_a_def
    by (simp add: handleSearch_def handleSearch_begin_def handleSearch_end_def Let_def
        split: sum.splits del: fetch_loop.simps)
  define shown_b where "shown_b = snd (handleSearch srv (shown_a\<lparr>query := qb\<rparr>))"
  have b: "searchHistory shown_b =
      searchHistory shown_a @ [\<lparr>entry_query = trim qa, entry_movies = movies shown_a\<rparr>] \<and>
      hasSearched shown_b"
    using h a unfolding shown_b_def
    by (simp add: handleSearch_def handleSearch_begin_def handleSearch_end_def Let_def
        split: sum.splits del: fetch_loop.simps)
  have "query (handleBack shown_b) = trim qa \<and> searchedQuery (handleBack shown_b) = trim qa \<and>
          movies (handleBack shown_b) = movies shown_a \<and>
          searchHistory (handleBack shown_b) = searchHistory shown_a \<and>
          hasSearched (handleBack shown_b)"
    using b by (simp add: handleBack_def Let_def)
  then show "let shown_a = snd (handleSearch srv (st\<lparr>query := qa\<rparr>));
           shown_b = snd (handleSearch srv (shown_a\<lparr>query := qb\<rparr>));
           back = handleBack shown_b
       in query back = trim qa \<and> searchedQuery back = trim qa \<and>
          movies back = movies shown_a \<and> searchHistory back = searchHistory shown_a \<and>
          hasSearched back"
    unfolding Let_def shown_a_def shown_b_def .
next
  assume h: "searchHistory st = []"
  then show "handleBack st =
        st\<lparr>movies := [], query := [], searchedQuery := [], hasSearched := False,
           selectedGenre := []\<rparr>"
    by (simp add: handleBack_def)
  from h show "\<not> shows_no_results (handleBack st)"
    by (simp add: handleBack_def shows_no_results_def)
  from h show "\<not> shows_results (handleBack st)"
    by (simp add: handleBack_def shows_results_def)
  from h show "rendered_cards (handleBack st) = suggested st"
    by (simp add: handleBack_def rendered_cards_def shows_results_def shows_suggested_def)
qed

theorem search_history_push_and_back_witness:
  "searchHistory (snd (handleSearch one_page (after_batman\<lparr>query := '' love ''\<rparr>))) =
     [\<lparr>entry_query = ''batman'', entry_movies = [another_movie]\<rparr>] \<and>
   searchHistory (snd (handleSearch one_page (initial_state\<lparr>query := '' love ''\<rparr>))) = [] \<and>
   handleBack (after_batman\<lparr>searchHistory := [\<lparr>entry_query = ''love'', entry_movies = [a_movie]\<rparr>]\<rparr>) =
     after_batman\<lparr>searchHistory := [], movies := [a_movie], searchedQuery := ''love'',
                  query := ''love''\<rparr> \<and>
   query (handleBack (snd (handleSearch one_page
      ((snd (handleSearch one_page (initial_state\<lparr>query := '' love ''\<rparr>)))\<lparr>query := ''batman''\<rparr>)))) =
     ''love'' \<and>
   movies (handleBack (snd (handleSearch one_page
      ((snd (handleSearch one_page (initial_state\<lparr>query := '' love ''\<rparr>)))\<lparr>query := ''batman''\<rparr>)))) =
     movies (snd (handleSearch one_page (initial_state\<lparr>query := '' love ''\<rparr>))) \<and>
   rendered_cards (handleBack after_batman) = [a_movie] \<and>
   query (handleBack after_batman) = []"
proof -
  have h1: "trim (query (after_batman\<lparr>query := '' love ''\<rparr>)) \<noteq> [] \<and>
      hasSearched (after_batman\<lparr>query := '' love ''\<rparr>) \<and>
      searchedQuery (after_batman\<lparr>query := '' love ''\<rparr>) \<noteq> []"
    by (simp add: trim_love after_batman_def initial_state_def)
  have h2: "trim (query (initial_state\<lparr>query := '' love ''\<rparr>)) \<noteq> [] \<and>
      \<not> (hasSearched (initial_state\<lparr>query := '' love ''\<rparr>) \<and>
         searchedQuery (initial_state\<lparr>query := '' love ''\<rparr>) \<noteq> [])"
    by (simp add: trim_love initial_state_def)
  have h3: "searchHistory (after_batman\<lparr>searchHistory := [\<lparr>entry_query = ''love'', entry_movies = [a_movie]\<rparr>]\<rparr>) =
      [] @ [\<lparr>entry_query = ''love'', entry_movies = [a_movie]\<rparr>]"
    by simp
  have h4: "trim '' love '' \<noteq> [] \<and> trim ''batman'' \<noteq> []"
    by (simp add: trim_love)
  have h5: "searchHistory after_batman = []"
    by (simp add: after_batman_def initial_state_def)
  note t1 = search_history_push_and_back
    [where st = "after_batman\<lparr>query := '' love ''\<rparr>" and srv = one_page,
     THEN conjunct1, THEN mp, OF h1]
  note t2 = search_history_push_and_back
    [where st = "initial_state\<lparr>query := '' love ''\<rparr>" and srv = one_page,
     THEN conjunct2, THEN conjunct1, THEN mp, OF h2]
  note t3 = search_history_push_and_back
    [where st = "after_batman\<lparr>searchHistory := [\<lparr>entry_query = ''love'', entry_movies = [a_movie]\<rparr>]\<rparr>"
       and older = "[]" and entry = "\<lparr>entry_query = ''love'', entry_movies = [a_movie]\<rparr>",
     THEN conjunct2, THEN conjunct2, THEN conjunct1, THEN mp, OF h3]
  note t4 = search_history_push_and_back
    [where st = initial_state and srv = one_page and qa = "'' love ''" and qb = "''batman''",
     THEN conjunct2, THEN conjunct2, THEN conjunct2, THEN conjunct1, THEN mp, OF h4]
  note t5 = search_history_push_and_back
    [where st = after_batman,
     THEN conjunct2, THEN conjunct2, THEN conjunct2, THEN conjunct2, THEN mp, OF h5]
  have s: "suggested after_batman = [a_movie]" "searchHistory initial_state = []"
    "searchedQuery after_batman = ''batman''" "movies after_batman = [another_movie]"
    "searchHistory after_batman = []"
    by (simp_all add: after_batman_def initial_state_def)
  have c1: "searchHistory (snd (handleSearch one_page (after_batman\<lparr>query := '' love ''\<rparr>))) =
     [\<lparr>entry_query = ''batman'', entry_movies = [another_movie]\<rparr>]"
    using t1 by (simp add: s)
  have c2: "searchHistory (snd (handleSearch one_page (initial_state\<lparr>query := '' love ''\<rparr>))) = []"
    using t2 by (simp add: s)
  have c4: "query (handleBack (snd (handleSearch one_page
      ((snd (handleSearch one_page (initial_state\<lparr>query := '' love ''\<rparr>)))\<lparr>query := ''batman''\<rparr>)))) =
     ''love'' \<and>
   movies (handleBack (snd (handleSearch one_page
      ((snd (handleSearch one_page (initial_state\<lparr>query := '' love ''\<rparr>)))\<lparr>query := ''batman''\<rparr>)))) =
     movies (snd (handleSearch one_page (initial_state\<lparr>query := '' love ''\<rparr>)))"
    using t4 by (simp add: Let_def trim_love)
  have c5: "rendered_cards (handleBack after_batman) = [a_movie]"
    using t5 [THEN conjunct2, THEN conjunct2, THEN conjunct2] by (simp only: s)
  have c6: "query (handleBack after_batman) = []"
    using t5 [THEN conjunct1] by simp
  have c3: "handleBack (after_batman\<lparr>searchHistory := [\<lparr>entry_query = ''love'', entry_movies = [a_movie]\<rparr>]\<rparr>) =
     after_batman\<lparr>searchHistory := [], movies := [a_movie], searchedQuery := ''love'',
                  query := ''love''\<rparr>"
    using t3 by simp
  from c1 c2 c3 c4 c5 c6 show ?thesis by blast
qed

text \<open>
  Claim C6, as stated, fails: with the results of the search "batman" displayed, a
  submitted search for "action" pushes that search onto the history stack, while selecting
  the genre "action" leaves the stack empty and leaves "batman" in the search field.
\<close>

theorem handleGenreSelect_history_counterexample:
  "hasSearched after_batman \<and> searchedQuery after_batman = ''batman'' \<and>
   movies after_batman = [another_movie] \<and> searchHistory after_batman = [] \<and>
   searchHistory (snd (handleSearch one_page (after_batman\<lparr>query := ''action''\<rparr>))) =
     [\<lparr>entry_query = ''batman'', entry_movies = [another_movie]\<rparr>] \<and>
   searchHistory (snd (handleGenreSelect one_page ''action'' after_batman)) = [] \<and>
   query (snd (handleGenreSelect one_page ''action'' after_batman)) = ''batman''"
  by (simp add: handleSearch_def handleSearch_begin_def handleSearch_end_def handleGenreSelect_def
      after_batman_def initial_state_def trim_love one_page_def fetchAllMoviesByGenre_def Let_def)

text \<open>
  Claim C6, amended. For every genre of the filter, selecting it ends with the same
  exception (if any), the same displayed results, the same searched query (the genre
  keyword), the has-searched flag set and the same searching flag as a submitted search
  whose query is the genre keyword; it leaves the history stack and the text of the search
  field unchanged and sets the filter to the genre. Selecting the empty entry of the
  filter ("All Genres") issues no request and clears the results, the search field and
  the searched query.
\<close>

theorem handleGenreSelect_like_search:
  "(genre \<in> set GENRES \<longrightarrow>
      fst (handleGenreSelect srv genre st) = fst (handleSearch srv (st\<lparr>query := genre\<rparr>)) \<and>
      movies (snd (handleGenreSelect srv genre st)) =
        movies (snd (handleSearch srv (st\<lparr>query := genre\<rparr>))) \<and>
      searchedQuery (snd (handleGenreSelect srv genre st)) = genre \<and>
      searchedQuery (snd (handleSearch srv (st\<lparr>query := genre\<rparr>))) = genre \<and>
      hasSearched (snd (handleGenreSelect srv genre st)) \<and>
      hasSearched (snd (handleSearch srv (st\<lparr>query := genre\<rparr>))) \<and>
      isSearching (snd (handleGenreSelect srv genre st)) =
        isSearching (snd (handleSearch srv (st\<lparr>query := genre\<rparr>))) \<and>
      searchHistory (snd (handleGenreSelect srv genre st)) = searchHistory st \<and>
      query (snd (handleGenreSelect srv genre st)) = query st \<and>
      selectedGenre (snd (handleGenreSelect srv genre st)) = genre) \<and>
   handleGenreSelect srv [] st =
     (None, st\<lparr>selectedGenre := [], movies := [], hasSearched := False, query := [],
               searchedQuery := []\<rparr>)"
proof (intro conjI impI)
  assume g: "genre \<in> set GENRES"
  note tg = trim_genre [OF g]
  have s: "handleSearch srv (st\<lparr>query := genre\<rparr>) =
     (case outcome (fetchAllMoviesByGenre srv genre) of
        Inl e \<Rightarrow> (Some e, st\<lparr>query := genre,
              searchHistory := (if hasSearched st \<and> searchedQuery st \<noteq> []
                        then searchHistory st @
                               [\<lparr>entry_query = searchedQuery st, entry_movies = movies st\<rparr>]
                        else searchHistory st),
              movies := [], searchedQuery := genre, hasSearched := True, isSearching := True,
              selectedGenre := []\<rparr>)
      | Inr allMovies \<Rightarrow> (None, st\<lparr>query := genre,
              searchHistory := (if hasSearched st \<and> searchedQuery st \<noteq> []
                        then searchHistory st @
                               [\<lparr>entry_query = searchedQuery st, entry_movies = movies st\<rparr>]
                        else searchHistory st),
              movies := allMovies, searchedQuery := genre, hasSearched := True, isSearching := False,
              selectedGenre := []\<rparr>))"
    using tg
    by (auto simp add: handleSearch_def handleSearch_begin_def handleSearch_end_def Let_def
        fetchAllMoviesByGenre_def split: sum.splits simp del: fetch_loop.simps)
  have gsel: "handleGenreSelect srv genre st =
     (case outcome (fetchAllMoviesByGenre srv genre) of
        Inl e \<Rightarrow> (Some e, st\<lparr>selectedGenre := genre, isSearching := True, hasSearched := True,
                              searchedQuery := genre, movies := []\<rparr>)
      | Inr genreMovies \<Rightarrow> (None, st\<lparr>selectedGenre := genre, isSearching := False, hasSearched := True,
                              searchedQuery := genre, movies := genreMovies\<rparr>))"
    using tg by (simp add: handleGenreSelect_def Let_def split: sum.splits)
  show "fst (handleGenreSelect srv genre st) = fst (handleSearch srv (st\<lparr>query := genre\<rparr>))"
    unfolding s gsel by (simp split: sum.splits)
  show "movies (snd (handleGenreSelect srv genre st)) =
        movies (snd (handleSearch srv (st\<lparr>query := genre\<rparr>)))"
    unfolding s gsel by (simp split: sum.splits)
  show "searchedQuery (snd (handleGenreSelect srv genre st)) = genre"
    unfolding gsel by (simp split: sum.splits)
  show "searchedQuery (snd (handleSearch srv (st\<lparr>query := genre\<rparr>))) = genre"
    unfolding s by (simp split: sum.splits)
  show "hasSearched (snd (handleGenreSelect srv genre st))"
    unfolding gsel by (simp split: sum.splits)
  show "hasSearched (snd (handleSearch srv (st\<lparr>query := genre\<rparr>)))"
    unfolding s by (simp split: sum.splits)
  show "isSearching (snd (handleGenreSelect srv genre st)) =
        isSearching (snd (handleSearch srv (st\<lparr>query := genre\<rparr>)))"
    unfolding s gsel by (simp split: sum.splits)
  show "searchHistory (snd (handleGenreSelect srv genre st)) = searchHistory st"
    unfolding gsel by (simp split: sum.splits)
  show "query (snd (handleGenreSelect srv genre st)) = query st"
    unfolding gsel by (simp split: sum.splits)
  show "selectedGenre (snd (handleGenreSelect srv genre st)) = genre"
    unfolding gsel by (simp split: sum.splits)
next
  show "handleGenreSelect srv [] st =
     (None, st\<lparr>selectedGenre := [], movies := [], hasSearched := False, query := [],
               searchedQuery := []\<rparr>)"
    by (simp add: handleGenreSelect_def)
qed

theorem handleGenreSelect_like_search_witness:
  "''action'' \<in> set GENRES \<and>
   movies (snd (handleGenreSelect one_page ''action'' after_batman)) =
     movies (snd (handleSearch one_page (after_batman\<lparr>query := ''action''\<rparr>))) \<and>
   searchHistory (snd (handleGenreSelect one_page ''action'' after_batman)) = [] \<and>
   query (snd (handleGenreSelect one_page ''action'' after_batman)) = ''batman'' \<and>
   selectedGenre (snd (handleGenreSelect one_page ''action'' after_batman)) = ''action''"
proof -
  have g: "''action'' \<in> set GENRES" by (simp add: GENRES_def)
  note t = handleGenreSelect_like_search
    [where genre = "''action''" and srv = one_page and st = after_batman,
     THEN conjunct1, THEN mp, OF g]
  have s: "searchHistory after_batman = []" "query after_batman = ''batman''"
    by (simp_all add: after_batman_def initial_state_def)
  from t g show ?thesis by (simp add: s)
qed

text \<open>
  Claim C9 on a concrete failing search: the results of "batman" are displayed, "love" is
  submitted and the first page request fails with a network error. The exception leaves
  the handler (the promise of \<^verbatim>\<open>handleSearch\<close> is rejected), the searching flag stays
  set, no card is rendered and the "no results" block is not rendered either.
\<close>

theorem handleSearch_offline_stays_searching:
  "handleSearch offline (after_batman\<lparr>query := ''love''\<rparr>) =
     (Some NetworkError,
      after_batman\<lparr>query := ''love'',
        searchHistory := [\<lparr>entry_query = ''batman'', entry_movies = [another_movie]\<rparr>],
        movies := [], searchedQuery := ''love'', hasSearched := True, isSearching := True,
        selectedGenre := []\<rparr>) \<and>
   isSearching (snd (handleSearch offline (after_batman\<lparr>query := ''love''\<rparr>))) \<and>
   \<not> shows_no_results (snd (handleSearch offline (after_batman\<lparr>query := ''love''\<rparr>))) \<and>
   rendered_cards (snd (handleSearch offline (after_batman\<lparr>query := ''love''\<rparr>))) = []"
  by (simp add: handleSearch_def handleSearch_begin_def handleSearch_end_def
      after_batman_def initial_state_def trim_love offline_def Let_def shows_no_results_def
      rendered_cards_def shows_suggested_def shows_results_def)

text \<open>The suggestion list is not written by any operation of the search controller.\<close>

lemma suggested_operate: "suggested (operate srv st act) = suggested st"
proof (cases act)
  case (Type typed)
  then show ?thesis by simp
next
  case Submit
  then show ?thesis
    by (simp add: handleSearch_def handleSearch_begin_def handleSearch_end_def Let_def
        split: sum.splits option.splits del: fetch_loop.simps)
next
  case (SelectGenre genre)
  then show ?thesis
    by (simp add: handleGenreSelect_def Let_def split: sum.splits)
next
  case Back
  then show ?thesis by (simp add: handleBack_def Let_def)
qed

lemma suggested_operations: "suggested (operations srv ops st) = suggested st"
  unfolding operations_def
  by (induction ops arbitrary: st) (simp_all add: suggested_operate)

lemma run_example:
  "operations one_page [Type ''love'', Submit, SelectGenre ''action'', Back] loaded =
     loaded\<lparr>selectedGenre := []\<rparr>"
  by (simp add: operations_def handleSearch_def handleSearch_begin_def handleSearch_end_def
      handleGenreSelect_def handleBack_def loaded_def initial_state_def trim_love one_page_def
      fetchAllMoviesByGenre_def Let_def)

text \<open>
  Claim C10. The suggestion list is left unchanged by a submitted search (by its part
  before the requests, by its part after them and by the whole handler, whether or not a
  request fails), by every genre selection and by "back", hence by every sequence of
  these operations and of typing in the search field; whenever such a sequence ends in a
  state with no active search (has-searched unset, no results), the cards rendered are
  exactly the suggestions that were loaded before it, and the "no results" block is not
  rendered.
\<close>

theorem suggested_unchanged:
  "suggested (snd (handleSearch srv st)) = suggested st \<and>
   (handleSearch_begin st = Some searching \<longrightarrow> suggested searching = suggested st) \<and>
   suggested (handleSearch_end allMovies st) = suggested st \<and>
   suggested (snd (handleGenreSelect srv genre st)) = suggested st \<and>
   suggested (handleBack st) = suggested st \<and>
   suggested (operations srv ops st) = suggested st \<and>
   (\<not> hasSearched (operations srv ops st) \<and> movies (operations srv ops st) = [] \<longrightarrow>
      rendered_cards (operations srv ops st) = suggested st \<and>
      \<not> shows_no_results (operations srv ops st))"
proof (intro conjI impI)
  show "suggested (snd (handleSearch srv st)) = suggested st"
    using suggested_operate [of srv st Submit] by simp
  show "suggested (handleSearch_end allMovies st) = suggested st"
    by (simp add: handleSearch_end_def)
  show "suggested (snd (handleGenreSelect srv genre st)) = suggested st"
    using suggested_operate [of srv st "SelectGenre genre"] by simp
  show "suggested (handleBack st) = suggested st"
    using suggested_operate [of srv st Back] by simp
  show "suggested (operations srv ops st) = suggested st"
    by (rule suggested_operations)
next
  assume "handleSearch_begin st = Some searching"
  then show "suggested searching = suggested st"
    by (auto simp add: handleSearch_begin_def Let_def split: if_splits)
next
  assume h: "\<not> hasSearched (operations srv ops st) \<and> movies (operations srv ops st) = []"
  then show "rendered_cards (operations srv ops st) = suggested st"
    using suggested_operations [of srv ops st]
    by (simp add: rendered_cards_def shows_suggested_def shows_results_def)
  from h show "\<not> shows_no_results (operations srv ops st)"
    by (simp add: shows_no_results_def)
qed

theorem suggested_unchanged_witness:
  "handleSearch_begin (loaded\<lparr>query := ''love''\<rparr>) \<noteq> None \<and>
   suggested (the (handleSearch_begin (loaded\<lparr>query := ''love''\<rparr>))) = [a_movie] \<and>
   \<not> hasSearched (operations one_page [Type ''love'', Submit, SelectGenre ''action'', Back] loaded) \<and>
   movies (operations one_page [Type ''love'', Submit, SelectGenre ''action'', Back] loaded) = [] \<and>
   rendered_cards (operations one_page [Type ''love'', Submit, SelectGenre ''action'', Back] loaded) =
     [a_movie]"
proof -
  obtain searching where b: "handleSearch_begin (loaded\<lparr>query := ''love''\<rparr>) = Some searching"
    by (simp add: handleSearch_begin_def trim_love Let_def)
  have h: "\<not> hasSearched (operations one_page [Type ''love'', Submit, SelectGenre ''action'', Back] loaded) \<and>
   movies (operations one_page [Type ''love'', Submit, SelectGenre ''action'', Back] loaded) = []"
    unfolding run_example by (simp add: loaded_def initial_state_def)
  have s: "suggested loaded = [a_movie]" by (simp add: loaded_def)
  note t1 = suggested_unchanged
    [where st = "loaded\<lparr>query := ''love''\<rparr>" and searching = searching,
     THEN conjunct2, THEN conjunct1, THEN mp, OF b]
  note t2 = suggested_unchanged
    [where st = loaded and srv = one_page
       and ops = "[Type ''love'', Submit, SelectGenre ''action'', Back]",
     THEN conjunct2, THEN conjunct2, THEN conjunct2, THEN conjunct2, THEN conjunct2,
     THEN conjunct2, THEN mp, OF h]
  from t1 t2 h b show ?thesis by (simp add: s)
qed

section \<open>Properties of the preview position\<close>

text \<open>Integers below \<open>2 ^ 53\<close> in magnitude are binary64 values: rounding keeps them.\<close>

lemma round_half_even_of_int: "round_half_even (of_int z) = z"
  by (simp add: round_half_even_def)

lemma ulp_of_int:
  assumes "n \<noteq> 0" "\<bar>n\<bar> < 2 ^ 53"
  shows "\<exists>j. ulp (of_int n) = 1 / 2 ^ j"
proof -
  have pos: "0 < \<bar>real_of_int n\<bar>" using assms(1) by simp
  have ge1: "1 \<le> \<bar>real_of_int n\<bar>" using assms(1) by (simp add: abs_if)
  have "\<bar>real_of_int n\<bar> < 2 ^ 53"
    using assms(2) by (metis of_int_abs of_int_less_numeral_power_cancel_iff)
  then have "\<bar>real_of_int n\<bar> < 2 powr 53" by simp
  then have "log 2 \<bar>real_of_int n\<bar> < 53"
    using pos by (simp add: log_less_iff)
  then have hi: "\<lfloor>log 2 \<bar>real_of_int n\<bar>\<rfloor> \<le> 52" by linarith
  have "0 \<le> log 2 \<bar>real_of_int n\<bar>" using ge1 by simp
  then have lo: "0 \<le> \<lfloor>log 2 \<bar>real_of_int n\<bar>\<rfloor>" by simp
  define e where "e = \<lfloor>log 2 \<bar>real_of_int n\<bar>\<rfloor>"
  have k: "max e (- 1022) - 52 = - int (nat (52 - e))"
    using hi lo unfolding e_def by simp
  have "ulp (of_int n) = 2 powr of_int (- int (nat (52 - e)))"
    unfolding ulp_def e_def [symmetric] k ..
  also have "\<dots> = 2 powr (- real (nat (52 - e)))" by simp
  also have "\<dots> = 1 / 2 ^ nat (52 - e)"
    by (simp add: powr_minus powr_realpow inverse_eq_divide)
  finally show ?thesis by blast
qed

lemma round64_of_int:
  assumes "\<bar>n\<bar> < 2 ^ 53"
  shows "round64 (of_int n) = Fin (of_int n)"
proof (cases "n = 0")
  case True
  then show ?thesis by (simp add: round64_def)
next
  case False
  from ulp_of_int [OF False assms] obtain j where u: "ulp (of_int n) = 1 / 2 ^ j" by blast
  have q: "real_of_int n / ulp (of_int n) = of_int (n * 2 ^ j)"
    by (simp add: u)
  have m: "ulp (of_int n) * of_int (round_half_even (of_int n / ulp (of_int n))) = of_int n"
    unfolding q round_half_even_of_int by (simp add: u)
  have "\<bar>real_of_int n\<bar> < 2 ^ 53"
    using assms by (metis of_int_abs of_int_less_numeral_power_cancel_iff)
  moreover have "(2::real) ^ 53 < 2 ^ 1024" by simp
  ultimately have b: "\<bar>real_of_int n\<bar> < 2 ^ 1024" by linarith
  then have "\<not> real_of_int n \<ge> 2 ^ 1024" and "\<not> real_of_int n \<le> - (2 ^ 1024)"
    by linarith+
  then show ?thesis
    using False by (simp add: round64_def Let_def m)
qed

lemma round64_numeral [simp]:
  "numeral k < (2::int) ^ 53 \<Longrightarrow> round64 (numeral k) = Fin (numeral k)"
  "numeral k < (2::int) ^ 53 \<Longrightarrow> round64 (- numeral k) = Fin (- numeral k)"
  "round64 0 = Fin 0" "round64 1 = Fin 1"
  using round64_of_int [of "numeral k"] round64_of_int [of "- numeral k"]
    round64_of_int [of 0] round64_of_int [of 1]
  by simp_all

lemma long_exact:
  assumes "- (2 ^ 31) \<le> w" "w < 2 ^ 31"
  shows "dsub (of_long w) (Fin 10) = Fin (of_int (w - 10))"
    and "dsub (of_long w) (Fin 360) = Fin (of_int (w - 360))"
    and "dadd (Fin (of_int (w - 360))) (Fin 350) = Fin (of_int (w - 10))"
proof -
  have a: "\<bar>w - 10\<bar> < 2 ^ 53" "\<bar>w - 360\<bar> < 2 ^ 53" using assms by simp_all
  show "dsub (of_long w) (Fin 10) = Fin (of_int (w - 10))"
    using round64_of_int [OF a(1)] by (simp add: dsub_def of_long_def)
  show "dsub (of_long w) (Fin 360) = Fin (of_int (w - 360))"
    using round64_of_int [OF a(2)] by (simp add: dsub_def of_long_def)
  have "real_of_int (w - 360) + 350 = real_of_int (w - 10)" by simp
  then show "dadd (Fin (of_int (w - 360))) (Fin 350) = Fin (of_int (w - 10))"
    using round64_of_int [OF a(1)] by (simp only: dadd.simps)
qed

lemma round64_not_NaN: "round64 r \<noteq> NaN"
  by (simp add: round64_def Let_def)

lemma dadd_Fin_not_NaN: "x \<noteq> NaN \<Longrightarrow> dadd x (Fin y) \<noteq> NaN"
  by (cases x) (simp_all add: round64_not_NaN)

text \<open>
  Within a binade the rounding is to a multiple of the unit in the last place, and the
  card at \<open>400 + 2 ^ - 44\<close> in a viewport of width 660 is not moved: the sum
  \<^verbatim>\<open>left + 350\<close> is a tie and rounds to 650, which is not above \<^verbatim>\<open>innerWidth - 10\<close>,
  while the sum of real numbers is above it by \<open>2 ^ - 44\<close>.
\<close>

lemma round_half_even_near: "\<bar>real_of_int (round_half_even q) - q\<bar> \<le> 1"
  unfolding round_half_even_def Let_def by (auto simp add: abs_if) linarith+

lemma scaled_round_near:
  assumes "0 < u"
  shows "\<bar>u * real_of_int (round_half_even (r / u)) - r\<bar> \<le> u"
proof -
  have "u * real_of_int (round_half_even (r / u)) - r =
      u * (real_of_int (round_half_even (r / u)) - r / u)"
    using assms by (simp add: algebra_simps)
  then have "\<bar>u * real_of_int (round_half_even (r / u)) - r\<bar> =
      u * \<bar>real_of_int (round_half_even (r / u)) - r / u\<bar>"
    using assms by (simp add: abs_mult)
  also have "\<dots> \<le> u * 1"
    using assms round_half_even_near [of "r / u"] by (intro mult_left_mono) simp_all
  finally show ?thesis by simp
qed

lemma ulp_binade:
  assumes "2 ^ e \<le> \<bar>r\<bar>" "\<bar>r\<bar> < 2 ^ Suc e" "e \<le> 52"
  shows "ulp r = 2 ^ e / 2 ^ 52"
proof -
  have pos: "0 < \<bar>r\<bar>" using assms(1) by (smt (verit) zero_less_power)
  have "2 powr real e \<le> \<bar>r\<bar>" using assms(1) by (simp add: powr_realpow)
  then have lo: "real e \<le> log 2 \<bar>r\<bar>" using pos by (simp add: le_log_iff)
  have "(2::real) powr real (Suc e) = 2 ^ Suc e" by (rule powr_realpow) simp
  with assms(2) have "\<bar>r\<bar> < 2 powr real (Suc e)" by simp
  then have hi: "log 2 \<bar>r\<bar> < real (Suc e)" using pos by (simp add: log_less_iff)
  from lo hi have fl: "\<lfloor>log 2 \<bar>r\<bar>\<rfloor> = int e" by (simp add: floor_eq_iff)
  have "ulp r = 2 powr of_int (int e - 52)"
    unfolding ulp_def fl by simp
  also have "\<dots> = 2 powr (real e - 52)" by simp
  also have "\<dots> = 2 powr real e / 2 powr 52" by (rule powr_diff)
  also have "\<dots> = 2 ^ e / 2 ^ 52" by (simp add: powr_realpow)
  finally show ?thesis .
qed

lemma round64_binade:
  assumes "2 ^ e \<le> \<bar>r\<bar>" "\<bar>r\<bar> < 2 ^ Suc e" "e \<le> 52"
  shows "round64 r = Fin (2 ^ e / 2 ^ 52 * of_int (round_half_even (r / (2 ^ e / 2 ^ 52))))"
proof -
  let ?u = "(2::real) ^ e / 2 ^ 52"
  let ?m = "?u * of_int (round_half_even (r / ?u))"
  have u: "ulp r = ?u" using assms by (rule ulp_binade)
  have upos: "0 < ?u" by simp
  have "(2::real) ^ e \<le> 2 ^ 52" using assms(3) by (intro power_increasing) simp_all
  then have u1: "?u \<le> 1" by simp
  have r0: "r \<noteq> 0" using assms(1) by (smt (verit) zero_less_power abs_zero)
  have "\<bar>?m - r\<bar> \<le> ?u" using upos by (rule scaled_round_near)
  with u1 have near: "\<bar>?m - r\<bar> \<le> 1" by linarith
  have "\<bar>r\<bar> < 2 ^ 53"
  proof -
    have "(2::real) ^ Suc e \<le> 2 ^ 53" using assms(3) by (intro power_increasing) simp_all
    with assms(2) show ?thesis by linarith
  qed
  moreover have "(2::real) ^ 53 + 1 < 2 ^ 1024" by simp
  ultimately have "\<bar>?m\<bar> < 2 ^ 1024" using near by linarith
  then have "\<not> ?m \<ge> 2 ^ 1024" and "\<not> ?m \<le> - (2 ^ 1024)" by linarith+
  then show ?thesis using r0 by (simp add: round64_def Let_def u)
qed

lemma round64_400: "round64 (400 + 1 / 2 ^ 44) = Fin (400 + 1 / 2 ^ 44)"
  by (subst round64_binade [of 8]) (simp_all add: round_half_even_def)

lemma round64_475: "round64 (475 + 1 / 2 ^ 44) = Fin (475 + 1 / 2 ^ 44)"
  by (subst round64_binade [of 8]) (simp_all add: round_half_even_def)

lemma round64_300: "round64 (300 + 1 / 2 ^ 44) = Fin (300 + 1 / 2 ^ 44)"
  by (subst round64_binade [of 8]) (simp_all add: round_half_even_def)

lemma round64_650_tie: "round64 (650 + 1 / 2 ^ 44) = Fin 650"
  by (subst round64_binade [of 9]) (simp_all add: round_half_even_def)

lemma fine_card_position:
  "pos_left (previewPosition fine_card (Fin 0) (Fin 0) (of_long 660)) = Fin (300 + 1 / 2 ^ 44) \<and>
   dadd (Fin (300 + 1 / 2 ^ 44)) (Fin 350) = Fin 650 \<and>
   (300 + 1 / 2 ^ 44 + 350 :: real) > 660 - 10"
proof -
  have a: "(400 + 1 / 2 ^ 44 + 0 :: real) = 400 + 1 / 2 ^ 44"
    "(400 + 1 / 2 ^ 44 + 75 :: real) = 475 + 1 / 2 ^ 44"
    "(475 + 1 / 2 ^ 44 + - 175 :: real) = 300 + 1 / 2 ^ 44"
    "(300 + 1 / 2 ^ 44 + 350 :: real) = 650 + 1 / 2 ^ 44"
    "(150 / 2 :: real) = 75"
    by simp_all
  have s: "dadd (Fin (300 + 1 / 2 ^ 44)) (Fin 350) = Fin 650"
    by (simp only: dadd.simps a round64_650_tie)
  have s1: "dadd (Fin (400 + 1 / 2 ^ 44)) (Fin 0) = Fin (400 + 1 / 2 ^ 44)"
    by (simp only: dadd.simps a round64_400)
  have s2: "dhalf (Fin 150) = Fin 75"
    by (simp add: a)
  have s3: "dadd (Fin (400 + 1 / 2 ^ 44)) (Fin 75) = Fin (475 + 1 / 2 ^ 44)"
    by (simp only: dadd.simps a round64_475)
  have s4: "dsub (Fin (475 + 1 / 2 ^ 44)) (Fin 175) = Fin (300 + 1 / 2 ^ 44)"
    by (simp only: dsub_def dneg.simps dadd.simps a round64_300)
  have l0: "dsub (dadd (dadd (Fin (400 + 1 / 2 ^ 44)) (Fin 0)) (dhalf (Fin 150))) (Fin 175) =
      Fin (300 + 1 / 2 ^ 44)"
    by (simp only: s1 s2 s3 s4)
  have w: "dsub (of_long 660) (Fin 10) = Fin 650"
    by (simp add: dsub_def of_long_def)
  have c1: "\<not> (300 + 1 / 2 ^ 44 :: real) < 10" by simp
  have "pos_left (previewPosition fine_card (Fin 0) (Fin 0) (of_long 660)) = Fin (300 + 1 / 2 ^ 44)"
    by (simp only: previewPosition_def fine_card_def Let_def DOMRect.select_convs
        PreviewPosition.select_convs l0 dlt.simps c1 if_False s w dgt_def less_irrefl)
  with s show ?thesis by simp
qed

text \<open>
  A viewport width has to be an integer for the right edge to be kept: were
  \<^verbatim>\<open>innerWidth\<close> the number \<open>64 + 3 * 2 ^ - 46\<close>, \<^verbatim>\<open>innerWidth - 360\<close> would
  round upwards and \<^verbatim>\<open>left + 350 > innerWidth - 10\<close> would still be true of the position
  that the second test has set.
\<close>

lemma round64_54: "round64 (54 + 3 / 2 ^ 46) = Fin (54 + 3 / 2 ^ 46)"
  by (subst round64_binade [of 5]) (simp_all add: round_half_even_def)

lemma round64_296_up: "round64 (- 296 + 3 / 2 ^ 46) = Fin (- 296 + 1 / 2 ^ 44)"
  by (subst round64_binade [of 8]) (simp_all add: round_half_even_def)

lemma round64_54_fine: "round64 (54 + 1 / 2 ^ 44) = Fin (54 + 1 / 2 ^ 44)"
  by (subst round64_binade [of 5]) (simp_all add: round_half_even_def)

lemma fractional_viewport:
  "pos_left (previewPosition a_card (Fin 0) (Fin 0) (Fin (64 + 3 / 2 ^ 46))) =
     Fin (- 296 + 1 / 2 ^ 44) \<and>
   dgt (dadd (Fin (- 296 + 1 / 2 ^ 44)) (Fin 350)) (dsub (Fin (64 + 3 / 2 ^ 46)) (Fin 10))"
proof -
  have a: "(64 + 3 / 2 ^ 46 + - 10 :: real) = 54 + 3 / 2 ^ 46"
    "(64 + 3 / 2 ^ 46 + - 360 :: real) = - 296 + 3 / 2 ^ 46"
    "(- 296 + 1 / 2 ^ 44 + 350 :: real) = 54 + 1 / 2 ^ 44"
    by simp_all
  have l0: "dsub (dadd (dadd (Fin 20) (Fin 0)) (dhalf (Fin 150))) (Fin 175) = Fin (- 80)"
    by (simp add: dsub_def)
  have c0: "dlt (Fin (- 80)) (Fin 10)" by simp
  have s: "dadd (Fin 10) (Fin 350) = Fin 360" by simp
  have w10: "dsub (Fin (64 + 3 / 2 ^ 46)) (Fin 10) = Fin (54 + 3 / 2 ^ 46)"
    by (simp only: dsub_def dneg.simps dadd.simps a round64_54)
  have w360: "dsub (Fin (64 + 3 / 2 ^ 46)) (Fin 360) = Fin (- 296 + 1 / 2 ^ 44)"
    by (simp only: dsub_def dneg.simps dadd.simps a round64_296_up)
  have c1: "dgt (Fin 360) (Fin (54 + 3 / 2 ^ 46))" by (simp add: dgt_def)
  have p: "pos_left (previewPosition a_card (Fin 0) (Fin 0) (Fin (64 + 3 / 2 ^ 46))) =
     Fin (- 296 + 1 / 2 ^ 44)"
    by (simp only: previewPosition_def a_card_def Let_def DOMRect.select_convs
        PreviewPosition.select_convs l0 c0 if_True s w10 w360 c1)
  have s2: "dadd (Fin (- 296 + 1 / 2 ^ 44)) (Fin 350) = Fin (54 + 1 / 2 ^ 44)"
    by (simp only: dadd.simps a round64_54_fine)
  have "dgt (Fin (54 + 1 / 2 ^ 44)) (Fin (54 + 3 / 2 ^ 46))" by (simp add: dgt_def)
  with p s2 w10 show ?thesis by simp
qed

text \<open>
  The two tests, for an integer viewport width; and the position is a number when the
  rectangle and the scroll offset are finite.
\<close>

lemma previewPosition_clamped:
  "(- (2 ^ 31) \<le> w \<and> w < 2 ^ 31 \<longrightarrow>
      \<not> dgt (dadd (pos_left (previewPosition rect scrollTop scrollLeft (of_long w))) (Fin 350))
            (dsub (of_long w) (Fin 10)) \<and>
      (370 \<le> w \<longrightarrow>
         \<not> dlt (pos_left (previewPosition rect scrollTop scrollLeft (of_long w))) (Fin 10)) \<and>
      (pos_left (previewPosition rect scrollTop scrollLeft (of_long w)) \<noteq> NaN \<longrightarrow>
         dle (dadd (pos_left (previewPosition rect scrollTop scrollLeft (of_long w))) (Fin 350))
             (dsub (of_long w) (Fin 10)) \<and>
         (370 \<le> w \<longrightarrow>
            dge (pos_left (previewPosition rect scrollTop scrollLeft (of_long w))) (Fin 10))))"
proof (intro impI)
  assume long: "- (2 ^ 31) \<le> w \<and> w < 2 ^ 31"
  note ex = long_exact [of w, OF conjunct1 [OF long] conjunct2 [OF long]]
  define left0 where
    "left0 = dsub (dadd (dadd (rect_left rect) scrollLeft) (dhalf (rect_width rect))) (Fin 175)"
  define left1 where "left1 = (if dlt left0 (Fin 10) then Fin 10 else left0)"
  define left2 where
    "left2 = (if dgt (dadd left1 (Fin 350)) (Fin (of_int (w - 10)))
              then Fin (of_int (w - 360)) else left1)"
  have p: "pos_left (previewPosition rect scrollTop scrollLeft (of_long w)) = left2"
    by (simp add: previewPosition_def Let_def left0_def left1_def left2_def ex)
  have l1: "\<not> dlt left1 (Fin 10)"
    by (simp add: left1_def)
  have right: "\<not> dgt (dadd left2 (Fin 350)) (Fin (of_int (w - 10)))"
  proof (cases "dgt (dadd left1 (Fin 350)) (Fin (of_int (w - 10)))")
    case True
    then have "left2 = Fin (of_int (w - 360))" by (simp only: left2_def if_True)
    then have "dadd left2 (Fin 350) = Fin (of_int (w - 10))" by (simp only: ex(3))
    then show ?thesis by (simp only: dgt_def dlt.simps less_irrefl not_False_eq_True)
  next
    case False
    then have "left2 = left1" by (simp only: left2_def if_False)
    with False show ?thesis by simp
  qed
  have left: "370 \<le> w \<Longrightarrow> \<not> dlt left2 (Fin 10)"
  proof (cases "dgt (dadd left1 (Fin 350)) (Fin (of_int (w - 10)))")
    case True
    assume "370 \<le> w"
    then have "\<not> real_of_int (w - 360) < 10" by simp
    moreover from True have "left2 = Fin (of_int (w - 360))"
      by (simp only: left2_def if_True)
    ultimately show ?thesis by (simp only: dlt.simps not_False_eq_True)
  next
    case False
    then have "left2 = left1" by (simp only: left2_def if_False)
    with l1 show ?thesis by simp
  qed
  have num: "left2 \<noteq> NaN \<Longrightarrow> dadd left2 (Fin 350) \<noteq> NaN"
    by (rule dadd_Fin_not_NaN)
  show "\<not> dgt (dadd (pos_left (previewPosition rect scrollTop scrollLeft (of_long w))) (Fin 350))
            (dsub (of_long w) (Fin 10)) \<and>
      (370 \<le> w \<longrightarrow>
         \<not> dlt (pos_left (previewPosition rect scrollTop scrollLeft (of_long w))) (Fin 10)) \<and>
      (pos_left (previewPosition rect scrollTop scrollLeft (of_long w)) \<noteq> NaN \<longrightarrow>
         dle (dadd (pos_left (previewPosition rect scrollTop scrollLeft (of_long w))) (Fin 350))
             (dsub (of_long w) (Fin 10)) \<and>
         (370 \<le> w \<longrightarrow>
            dge (pos_left (previewPosition rect scrollTop scrollLeft (of_long w))) (Fin 10)))"
    unfolding p ex(1) using right left num
    by (auto simp add: dle_def dge_def dgt_def)
qed

lemma ulp_le:
  assumes "r \<noteq> 0" "\<bar>r\<bar> < 2 ^ 1023"
  shows "0 < ulp r \<and> ulp r \<le> 2 ^ 970"
proof -
  have pos: "0 < \<bar>r\<bar>" using assms(1) by simp
  have "(2::real) powr real (1023::nat) = 2 ^ 1023" by (rule powr_realpow) simp
  with assms(2) have "\<bar>r\<bar> < 2 powr 1023" by simp
  then have "log 2 \<bar>r\<bar> < 1023" using pos by (simp add: log_less_iff)
  then have "\<lfloor>log 2 \<bar>r\<bar>\<rfloor> \<le> 1022" by linarith
  then have "max \<lfloor>log 2 \<bar>r\<bar>\<rfloor> (- 1022) - 52 \<le> 970" by simp
  then have "real_of_int (max \<lfloor>log 2 \<bar>r\<bar>\<rfloor> (- 1022) - 52) \<le> real (970::nat)" by simp
  then have "ulp r \<le> 2 powr real (970::nat)"
    unfolding ulp_def by (intro powr_mono) simp_all
  moreover have "(2::real) powr real (970::nat) = 2 ^ 970" by (rule powr_realpow) simp
  moreover have "0 < ulp r" by (simp add: ulp_def)
  ultimately show ?thesis by simp
qed

lemma round64_finite:
  assumes "\<bar>r\<bar> < 2 ^ 1023"
  shows "\<exists>m. round64 r = Fin m"
proof (cases "r = 0")
  case True
  then show ?thesis by (simp add: round64_def)
next
  case False
  let ?m = "ulp r * real_of_int (round_half_even (r / ulp r))"
  from ulp_le [OF False assms] have u: "0 < ulp r" "ulp r \<le> 2 ^ 970" by simp_all
  have "\<bar>?m - r\<bar> \<le> ulp r" using u(1) by (rule scaled_round_near)
  then have "\<bar>?m\<bar> \<le> \<bar>r\<bar> + 2 ^ 970" using u(2) by linarith
  moreover have "(2::real) ^ 1023 + 2 ^ 970 < 2 ^ 1024" by simp
  ultimately have "\<bar>?m\<bar> < 2 ^ 1024" using assms by linarith
  then have "\<not> ?m \<ge> 2 ^ 1024" and "\<not> ?m \<le> - (2 ^ 1024)" by linarith+
  then show ?thesis using False by (simp add: round64_def Let_def)
qed

lemma previewPosition_number:
  assumes "- (2 ^ 31) \<le> w" "w < 2 ^ 31"
    and "rect_left rect = Fin l" "scrollLeft = Fin s" "rect_width rect = Fin d" "\<bar>d\<bar> < 2 ^ 1024"
  shows "pos_left (previewPosition rect scrollTop scrollLeft (of_long w)) \<noteq> NaN"
proof -
  have "\<bar>d / 2\<bar> < 2 ^ 1023" using assms(6) by simp
  from round64_finite [OF this] obtain h where h: "round64 (d / 2) = Fin h" by auto
  have "round64 (l + s) \<noteq> NaN" by (rule round64_not_NaN)
  then have "dadd (round64 (l + s)) (Fin h) \<noteq> NaN" by (rule dadd_Fin_not_NaN)
  then have l0: "dsub (dadd (round64 (l + s)) (Fin h)) (Fin 175) \<noteq> NaN"
    unfolding dsub_def dneg.simps by (rule dadd_Fin_not_NaN)
  have w360: "dsub (of_long w) (Fin 360) \<noteq> NaN"
    by (simp add: long_exact(2) [OF assms(1,2)])
  show ?thesis
    using l0 w360 by (simp add: previewPosition_def Let_def assms(3,4,5) h)
qed

text \<open>
  Claim C8, as stated, fails on a viewport narrower than 370 pixels: for a viewport of
  width 320 the left edge of the preview is at -40.
\<close>

theorem previewPosition_narrow_counterexample:
  "pos_left (previewPosition a_card (Fin 0) (Fin 0) (of_long 320)) = Fin (- 40) \<and>
   dlt (pos_left (previewPosition a_card (Fin 0) (Fin 0) (of_long 320))) (Fin 10) \<and>
   \<not> dge (pos_left (previewPosition a_card (Fin 0) (Fin 0) (of_long 320))) (Fin 10)"
  by (simp add: previewPosition_def a_card_def Let_def dsub_def dgt_def dge_def dle_def of_long_def)

text \<open>
  Claim C8, amended. For every card rectangle and scroll offset and every viewport width
  that is an integer number of pixels, the position computed when the show timer elapses
  is such that \<^verbatim>\<open>left + 350 > innerWidth - 10\<close>, as the program evaluates it, is false;
  when the viewport is at least 370 wide, \<^verbatim>\<open>left < 10\<close> is false as well. When the
  position is a number (not NaN), and so whenever the rectangle and the scroll offset are
  finite, these are \<^verbatim>\<open>left + 350 <= innerWidth - 10\<close> and \<^verbatim>\<open>left >= 10\<close> in the
  arithmetic of the program.
\<close>

theorem previewPosition_edges:
  "(- (2 ^ 31) \<le> w \<and> w < 2 ^ 31 \<longrightarrow>
      \<not> dgt (dadd (pos_left (previewPosition rect scrollTop scrollLeft (of_long w))) (Fin 350))
            (dsub (of_long w) (Fin 10)) \<and>
      (370 \<le> w \<longrightarrow>
         \<not> dlt (pos_left (previewPosition rect scrollTop scrollLeft (of_long w))) (Fin 10)) \<and>
      (pos_left (previewPosition rect scrollTop scrollLeft (of_long w)) \<noteq> NaN \<longrightarrow>
         dle (dadd (pos_left (previewPosition rect scrollTop scrollLeft (of_long w))) (Fin 350))
             (dsub (of_long w) (Fin 10)) \<and>
         (370 \<le> w \<longrightarrow>
            dge (pos_left (previewPosition rect scrollTop scrollLeft (of_long w))) (Fin 10))) \<and>
      (rect_left rect = Fin l \<and> scrollLeft = Fin s \<and> rect_width rect = Fin d \<and>
       \<bar>d\<bar> < 2 ^ 1024 \<longrightarrow>
         dle (dadd (pos_left (previewPosition rect scrollTop scrollLeft (of_long w))) (Fin 350))
             (dsub (of_long w) (Fin 10)) \<and>
         (370 \<le> w \<longrightarrow>
            dge (pos_left (previewPosition rect scrollTop scrollLeft (of_long w))) (Fin 10))))"
proof (intro impI)
  assume long: "- (2 ^ 31) \<le> w \<and> w < 2 ^ 31"
  note c = previewPosition_clamped [of w rect scrollTop scrollLeft, THEN mp, OF long]
  have fin: "rect_left rect = Fin l \<and> scrollLeft = Fin s \<and> rect_width rect = Fin d \<and>
       \<bar>d\<bar> < 2 ^ 1024 \<longrightarrow>
         dle (dadd (pos_left (previewPosition rect scrollTop scrollLeft (of_long w))) (Fin 350))
             (dsub (of_long w) (Fin 10)) \<and>
         (370 \<le> w \<longrightarrow>
            dge (pos_left (previewPosition rect scrollTop scrollLeft (of_long w))) (Fin 10))"
  proof
    assume f: "rect_left rect = Fin l \<and> scrollLeft = Fin s \<and> rect_width rect = Fin d \<and>
       \<bar>d\<bar> < 2 ^ 1024"
    have "pos_left (previewPosition rect scrollTop scrollLeft (of_long w)) \<noteq> NaN"
      using long f by (intro previewPosition_number [where l = l and s = s and d = d]) simp_all
    with c [THEN conjunct2, THEN conjunct2]
    show "dle (dadd (pos_left (previewPosition rect scrollTop scrollLeft (of_long w))) (Fin 350))
             (dsub (of_long w) (Fin 10)) \<and>
         (370 \<le> w \<longrightarrow>
            dge (pos_left (previewPosition rect scrollTop scrollLeft (of_long w))) (Fin 10))"
      by (rule mp)
  qed
  from c fin
  show "\<not> dgt (dadd (pos_left (previewPosition rect scrollTop scrollLeft (of_long w))) (Fin 350))
            (dsub (of_long w) (Fin 10)) \<and>
      (370 \<le> w \<longrightarrow>
         \<not> dlt (pos_left (previewPosition rect scrollTop scrollLeft (of_long w))) (Fin 10)) \<and>
      (pos_left (previewPosition rect scrollTop scrollLeft (of_long w)) \<noteq> NaN \<longrightarrow>
         dle (dadd (pos_left (previewPosition rect scrollTop scrollLeft (of_long w))) (Fin 350))
             (dsub (of_long w) (Fin 10)) \<and>
         (370 \<le> w \<longrightarrow>
            dge (pos_left (previewPosition rect scrollTop scrollLeft (of_long w))) (Fin 10))) \<and>
      (rect_left rect = Fin l \<and> scrollLeft = Fin s \<and> rect_width rect = Fin d \<and>
       \<bar>d\<bar> < 2 ^ 1024 \<longrightarrow>
         dle (dadd (pos_left (previewPosition rect scrollTop scrollLeft (of_long w))) (Fin 350))
             (dsub (of_long w) (Fin 10)) \<and>
         (370 \<le> w \<longrightarrow>
            dge (pos_left (previewPosition rect scrollTop scrollLeft (of_long w))) (Fin 10)))"
    by blast
qed

theorem previewPosition_edges_witness:
  "pos_left (previewPosition a_card (Fin 0) (Fin 0) (of_long 1280)) = Fin 10 \<and>
   \<not> dgt (dadd (pos_left (previewPosition a_card (Fin 0) (Fin 0) (of_long 1280))) (Fin 350))
         (dsub (of_long 1280) (Fin 10)) \<and>
   \<not> dlt (pos_left (previewPosition a_card (Fin 0) (Fin 0) (of_long 1280))) (Fin 10) \<and>
   dle (dadd (pos_left (previewPosition a_card (Fin 0) (Fin 0) (of_long 1280))) (Fin 350))
       (dsub (of_long 1280) (Fin 10)) \<and>
   dge (pos_left (previewPosition a_card (Fin 0) (Fin 0) (of_long 1280))) (Fin 10)"
proof -
  have v: "pos_left (previewPosition a_card (Fin 0) (Fin 0) (of_long 1280)) = Fin 10"
    by (simp add: previewPosition_def a_card_def Let_def dsub_def dgt_def of_long_def)
  have h: "- (2 ^ 31) \<le> (1280::int) \<and> (1280::int) < 2 ^ 31" by simp
  have n: "pos_left (previewPosition a_card (Fin 0) (Fin 0) (of_long 1280)) \<noteq> NaN"
    by (simp add: v)
  have f: "rect_left a_card = Fin 20 \<and> Fin 0 = Fin 0 \<and> rect_width a_card = Fin 150 \<and>
      \<bar>150 :: real\<bar> < 2 ^ 1024"
    by (simp add: a_card_def)
  have w: "(370::int) \<le> 1280" by simp
  note t = previewPosition_edges [of 1280 a_card "Fin 0" "Fin 0" 20 0 150, THEN mp, OF h]
  note t3 = t [THEN conjunct2, THEN conjunct2, THEN conjunct1, THEN mp, OF n]
  note t4 = t [THEN conjunct2, THEN conjunct2, THEN conjunct2, THEN mp, OF f]
  from t [THEN conjunct1] t [THEN conjunct2, THEN conjunct1, THEN mp, OF w]
    t3 [THEN conjunct1] t3 [THEN conjunct2, THEN mp, OF w]
    t4 [THEN conjunct1] t4 [THEN conjunct2, THEN mp, OF w] v
  show ?thesis by blast
qed

end
